theory Spec2Isabelle
  imports Complex_Main
begin

section \<open>JavaScript values\<close>

text \<open>
  The values that \<^verbatim>\<open>JSON.parse\<close> and an HTTP response body can hold. A value that may
  also be \<^verbatim>\<open>undefined\<close> is a \<open>json option\<close>, with \<open>None\<close> for \<^verbatim>\<open>undefined\<close>.
  An object is an association list; the first binding of a key is the one that is read.
\<close>

datatype json =
    JNull
  | JBool bool
  | JNum real
  | JStr string
  | JArr "json list"
  | JObj "(string \<times> json) list"

datatype error =
    TypeError
  | Error string
  | AssertionError
  | VideoTokenError
  | TownCreationFailed

text \<open>
  Property access \<^verbatim>\<open>v.k\<close>. Reading a property of \<^verbatim>\<open>null\<close> or \<^verbatim>\<open>undefined\<close> throws a
  TypeError. The keys read by this program (\<^verbatim>\<open>access_token\<close>, \<^verbatim>\<open>expiry\<close>, \<^verbatim>\<open>item\<close>,
  \<^verbatim>\<open>is_playing\<close>) are not properties of booleans, numbers, strings or arrays, so reading
  them there gives \<^verbatim>\<open>undefined\<close>.
\<close>

fun getProp :: "json option \<Rightarrow> string \<Rightarrow> error + json option" where
  "getProp None k = Inl TypeError"
| "getProp (Some JNull) k = Inl TypeError"
| "getProp (Some (JObj kvs)) k = Inr (map_of kvs k)"
| "getProp (Some (JBool b)) k = Inr None"
| "getProp (Some (JNum r)) k = Inr None"
| "getProp (Some (JStr s)) k = Inr None"
| "getProp (Some (JArr vs)) k = Inr None"

text \<open>Truthiness, as tested by \<^verbatim>\<open>if (v)\<close>.\<close>

fun truthy :: "json option \<Rightarrow> bool" where
  "truthy None = False"
| "truthy (Some JNull) = False"
| "truthy (Some (JBool b)) = b"
| "truthy (Some (JNum r)) = (r \<noteq> 0)"
| "truthy (Some (JStr s)) = (s \<noteq> [])"
| "truthy (Some (JArr vs)) = True"
| "truthy (Some (JObj kvs)) = True"

section \<open>SpotifyClient\<close>

text \<open>
  A \<^verbatim>\<open>Player\<close> object is referred to by its identity; the generated player id is that
  identity.
\<close>

type_synonym playerRef = string

record spotifyToken =
  accessToken :: "json option"
  expiry :: "json option"

text \<open>\<^verbatim>\<open>_townsToPlayerMaps\<close>: town ids to a map from players to their tokens.\<close>

type_synonym townsToPlayerMaps = "string \<rightharpoonup> (playerRef \<rightharpoonup> spotifyToken)"

text \<open>
  \<^verbatim>\<open>getTokenForTownPlayer\<close>. The method is only ever called on the class itself, so
  \<^verbatim>\<open>this\<close> is truthy and the guarded branch is the one taken.
\<close>

definition getTokenForTownPlayer :: "townsToPlayerMaps \<Rightarrow> string \<Rightarrow> playerRef \<Rightarrow> json option" where
  "getTokenForTownPlayer m coveyTownID player =
     (case m coveyTownID of
        None \<Rightarrow> None
      | Some playerToToken \<Rightarrow>
          (case playerToToken player of
             None \<Rightarrow> None
           | Some fullToken \<Rightarrow> accessToken fullToken))"

definition addTownToClient :: "townsToPlayerMaps \<Rightarrow> string \<Rightarrow> townsToPlayerMaps" where
  "addTownToClient m coveyTownID = m(coveyTownID \<mapsto> Map.empty)"

definition removeTownFromClient :: "townsToPlayerMaps \<Rightarrow> string \<Rightarrow> townsToPlayerMaps" where
  "removeTownFromClient m coveyTownID = m(coveyTownID := None)"

definition parseErrorMessage :: "string \<Rightarrow> string" where
  "parseErrorMessage spotifyToken = ''Error parsing token \"'' @ spotifyToken @ ''\"''"

text \<open>
  \<^verbatim>\<open>addTownPlayerToClient\<close>. \<^verbatim>\<open>JSON.parse\<close> is the parameter \<open>parse\<close>, with \<open>None\<close> where it
  throws. Everything thrown inside the \<^verbatim>\<open>try\<close> block, by the parser or by a property
  access, is caught and replaced by \<^verbatim>\<open>Error parsing token\<close>. The entry is set only when
  the town has a map (\<^verbatim>\<open>playerToToken?.set\<close>).
\<close>

definition addTownPlayerToClient ::
  "(string \<Rightarrow> json option) \<Rightarrow> townsToPlayerMaps \<Rightarrow> string \<Rightarrow> playerRef \<Rightarrow> string
    \<Rightarrow> (error + unit) \<times> townsToPlayerMaps" where
  "addTownPlayerToClient parse m coveyTownID player spotifyToken =
     (case parse spotifyToken of
        None \<Rightarrow> (Inl (Error (parseErrorMessage spotifyToken)), m)
      | Some tokenJson \<Rightarrow>
          (case getProp (Some tokenJson) ''access_token'' of
             Inl e \<Rightarrow> (Inl (Error (parseErrorMessage spotifyToken)), m)
           | Inr accessTok \<Rightarrow>
               (case getProp (Some tokenJson) ''expiry'' of
                  Inl e \<Rightarrow> (Inl (Error (parseErrorMessage spotifyToken)), m)
                | Inr expiryTok \<Rightarrow>
                    (Inr (),
                     (case m coveyTownID of
                        None \<Rightarrow> m
                      | Some playerToToken \<Rightarrow>
                          m(coveyTownID \<mapsto>
                              playerToToken(player \<mapsto> \<lparr>accessToken = accessTok, expiry = expiryTok\<rparr>)))))))"

definition removeTownPlayerFromClient ::
  "townsToPlayerMaps \<Rightarrow> string \<Rightarrow> playerRef \<Rightarrow> townsToPlayerMaps" where
  "removeTownPlayerFromClient m coveyTownID player =
     (case m coveyTownID of
        None \<Rightarrow> m
      | Some playerToToken \<Rightarrow> m(coveyTownID \<mapsto> playerToToken(player := None)))"

subsection \<open>Calls to the Spotify API\<close>

text \<open>
  The response of \<^verbatim>\<open>axios.get\<close>; only its \<^verbatim>\<open>data\<close> is read. The request is the
  parameter \<open>axios_get\<close>: it is given the URL and the token that goes into the
  \<^verbatim>\<open>Authorization\<close> header, and answers \<open>None\<close> where the call throws.
\<close>

record axiosResponse =
  data :: "json option"

type_synonym axiosGet = "string \<Rightarrow> json option \<Rightarrow> axiosResponse option"

definition getSpotifyAPICallResponse ::
  "axiosGet \<Rightarrow> townsToPlayerMaps \<Rightarrow> string \<Rightarrow> string \<Rightarrow> playerRef \<Rightarrow> axiosResponse option" where
  "getSpotifyAPICallResponse axios_get m apiURL coveyTownID player =
     (let playerToken = getTokenForTownPlayer m coveyTownID player
      in axios_get apiURL playerToken)"

record playbackState =
  isPlaying :: "json option"

text \<open>
  The part of \<^verbatim>\<open>getPlaybackState\<close> after the request: no response gives
  \<^verbatim>\<open>undefined\<close>; otherwise \<^verbatim>\<open>data.item\<close> is tested and \<^verbatim>\<open>data.is_playing\<close> returned.
\<close>

definition playbackStateOfResponse :: "axiosResponse option \<Rightarrow> error + playbackState option" where
  "playbackStateOfResponse playbackStateInfo =
     (case playbackStateInfo of
        None \<Rightarrow> Inr None
      | Some info \<Rightarrow>
          (let playbackStateJsonData = data info in
           case getProp playbackStateJsonData ''item'' of
             Inl e \<Rightarrow> Inl e
           | Inr item \<Rightarrow>
               if truthy item then
                 (case getProp playbackStateJsonData ''is_playing'' of
                    Inl e \<Rightarrow> Inl e
                  | Inr playing \<Rightarrow> Inr (Some \<lparr>isPlaying = playing\<rparr>))
               else Inr None))"

definition getPlaybackState ::
  "axiosGet \<Rightarrow> townsToPlayerMaps \<Rightarrow> string \<Rightarrow> playerRef \<Rightarrow> error + playbackState option" where
  "getPlaybackState axios_get m coveyTownID player =
     playbackStateOfResponse
       (getSpotifyAPICallResponse axios_get m ''https://api.spotify.com/v1/me/player''
          coveyTownID player)"

subsection \<open>Starting playback\<close>

text \<open>
  The body of the PUT request of \<^verbatim>\<open>startUserPlayback\<close>. The request is the parameter
  \<open>axios_put\<close>: it is given the URL, the body and the token of the \<^verbatim>\<open>Authorization\<close>
  header, and answers \<open>False\<close> where the call throws.
\<close>

record playRequest =
  req_uris :: "string list"
  req_progress_ms :: real

type_synonym axiosPut = "string \<Rightarrow> playRequest \<Rightarrow> json option \<Rightarrow> bool"

section \<open>The data model\<close>

text \<open>
  Modelled from the spec: the declarations of \<^verbatim>\<open>UserLocation\<close>,
  \<^verbatim>\<open>ServerConversationArea\<close>, \<^verbatim>\<open>SongData\<close>, \<^verbatim>\<open>Player\<close> and \<^verbatim>\<open>PlayerSession\<close> are not
  among the sources. The records follow section 3 of the specification, with the field
  names that the handlers and the controller's tests read and write. The fields \<^verbatim>\<open>x\<close>,
  \<^verbatim>\<open>y\<close>, \<^verbatim>\<open>width\<close> and \<^verbatim>\<open>height\<close> carry a prefix here, and every JavaScript number is
  a real.
\<close>

record userLocation =
  loc_x :: real
  loc_y :: real
  rotation :: string
  moving :: bool
  conversationLabel :: "string option"

record boundingBox =
  box_x :: real
  box_y :: real
  box_width :: real
  box_height :: real

record serverConversationArea =
  label :: string
  topic :: string
  boundingBox :: boundingBox
  occupantsByID :: "string list"

record songData =
  displayTitle :: string
  uris :: "string list"
  progress :: real

text \<open>
  A player object. Its \<^verbatim>\<open>id\<close> is the reference under which the object is stored; the
  active conversation area is held by label.
\<close>

record player =
  userName :: string
  location :: userLocation
  activeConversationArea :: "string option"
  spotifySong :: "songData option"

type_synonym heap = "playerRef \<Rightarrow> player"

record playerSession =
  sessionPlayer :: playerRef
  sessionToken :: string
  videoToken :: "string option"

text \<open>A chat message is passed on as it is; its content plays no part.\<close>

type_synonym chatMessage = string

type_synonym listener = nat

text \<open>
  The notifications of \<^verbatim>\<open>CoveyTownListener\<close>, one constructor per callback of
  \<^verbatim>\<open>townSocketAdapter\<close>. A player is passed by reference, an area as it is at that
  moment. A listener is known by its identity, a number.
\<close>

datatype event =
    OnPlayerMoved playerRef
  | OnPlayerSongUpdated playerRef
  | OnPlayerDisconnected playerRef
  | OnPlayerJoined playerRef
  | OnTownDestroyed
  | OnConversationAreaDestroyed serverConversationArea
  | OnConversationAreaUpdated serverConversationArea
  | OnChatMessage chatMessage

type_synonym notification = "listener \<times> event"

text \<open>
  Modelled from the spec: the state the missing controller keeps for one town (section
  3), with the players held by reference.
\<close>

record town =
  coveyTownID :: string
  friendlyName :: string
  isPubliclyListed :: bool
  townUpdatePassword :: string
  players :: "playerRef list"
  sessions :: "playerSession list"
  conversationAreas :: "serverConversationArea list"
  listeners :: "listener list"

text \<open>
  \<^verbatim>\<open>startUserPlayback\<close>: the PUT carries the song's URIs and its progress, and the result
  tells whether the request went through.
\<close>

definition startUserPlayback ::
  "axiosPut \<Rightarrow> townsToPlayerMaps \<Rightarrow> string \<Rightarrow> playerRef \<Rightarrow> songData \<Rightarrow> bool" where
  "startUserPlayback axios_put m townID p song =
     (let playerToken = getTokenForTownPlayer m townID p
      in axios_put ''https://api.spotify.com/v1/me/player/play''
           \<lparr>req_uris = uris song, req_progress_ms = progress song\<rparr> playerToken)"

section \<open>The town controller\<close>

text \<open>
  Modelled from the spec: \<^verbatim>\<open>CoveyTownController\<close> is not among the sources. Its
  operations follow section 4.2 of the specification. Every operation returns, besides
  the new state, the notifications it delivers, in order, each as the listener and the
  event it receives.
\<close>

definition notifyAll :: "town \<Rightarrow> event \<Rightarrow> notification list" where
  "notifyAll t e = map (\<lambda>l. (l, e)) (listeners t)"

text \<open>
  Modelled from the spec: listener management of the missing controller. Listeners are
  compared by identity and kept as a set: adding a subscribed listener again changes
  nothing.
\<close>

definition addTownListener :: "town \<Rightarrow> listener \<Rightarrow> town" where
  "addTownListener t l =
     (if l \<in> set (listeners t) then t else t\<lparr>listeners := listeners t @ [l]\<rparr>)"

definition removeTownListener :: "town \<Rightarrow> listener \<Rightarrow> town" where
  "removeTownListener t l = t\<lparr>listeners := filter (\<lambda>v. v \<noteq> l) (listeners t)\<rparr>"

text \<open>
  Modelled from the spec: a player's area is a reference resolved by label in the town's
  list of areas. These look an area up by its label, replace it, and remove it; with
  labels unique in a town there is at most one such area, and the first is taken.
\<close>

definition findArea :: "string \<Rightarrow> serverConversationArea list \<Rightarrow> serverConversationArea option" where
  "findArea lbl areas = find (\<lambda>a. label a = lbl) areas"

fun replaceArea ::
  "string \<Rightarrow> serverConversationArea \<Rightarrow> serverConversationArea list \<Rightarrow> serverConversationArea list" where
  "replaceArea lbl a' [] = []"
| "replaceArea lbl a' (a # as) =
     (if label a = lbl then a' # as else a # replaceArea lbl a' as)"

fun dropArea :: "string \<Rightarrow> serverConversationArea list \<Rightarrow> serverConversationArea list" where
  "dropArea lbl [] = []"
| "dropArea lbl (a # as) = (if label a = lbl then as else a # dropArea lbl as)"

text \<open>
  Modelled from the spec: \<^verbatim>\<open>addConversationArea\<close> of the missing controller. It fails
  with no change when the label is taken, and otherwise appends the area with the
  occupants supplied.
\<close>

definition addConversationArea :: "town \<Rightarrow> serverConversationArea \<Rightarrow> bool \<times> town" where
  "addConversationArea t area =
     (if findArea (label area) (conversationAreas t) \<noteq> None then (False, t)
      else (True, t\<lparr>conversationAreas := conversationAreas t @ [area]\<rparr>))"

text \<open>
  Modelled from the spec: a player leaves an area (step 2 of \<^verbatim>\<open>updatePlayerLocation\<close>,
  and \<^verbatim>\<open>destroySession\<close>). The player's id is taken off the occupant list; an area left
  empty is destroyed and the listeners are told \<^verbatim>\<open>onConversationAreaDestroyed\<close>.
\<close>

definition leaveConversationArea :: "town \<Rightarrow> playerRef \<Rightarrow> string \<Rightarrow> town \<times> notification list" where
  "leaveConversationArea t p lbl =
     (case findArea lbl (conversationAreas t) of
        None \<Rightarrow> (t, [])
      | Some a \<Rightarrow>
          (let a' = a\<lparr>occupantsByID := removeAll p (occupantsByID a)\<rparr> in
           if occupantsByID a' = []
           then (t\<lparr>conversationAreas := dropArea lbl (conversationAreas t)\<rparr>,
                 notifyAll t (OnConversationAreaDestroyed a'))
           else (t\<lparr>conversationAreas := replaceArea lbl a' (conversationAreas t)\<rparr>, [])))"

text \<open>
  Modelled from the spec: a player enters an area (step 2 of \<^verbatim>\<open>updatePlayerLocation\<close>).
  The id is added to the occupant list and the listeners are told
  \<^verbatim>\<open>onConversationAreaUpdated\<close>.
\<close>

definition enterConversationArea :: "town \<Rightarrow> playerRef \<Rightarrow> string \<Rightarrow> town \<times> notification list" where
  "enterConversationArea t p lbl =
     (case findArea lbl (conversationAreas t) of
        None \<Rightarrow> (t, [])
      | Some a \<Rightarrow>
          (let a' = a\<lparr>occupantsByID := occupantsByID a @ [p]\<rparr> in
           (t\<lparr>conversationAreas := replaceArea lbl a' (conversationAreas t)\<rparr>,
            notifyAll t (OnConversationAreaUpdated a'))))"

text \<open>
  Modelled from the spec: step 1 of \<^verbatim>\<open>updatePlayerLocation\<close>. An explicit label is
  looked up and is authoritative; without one, the area whose box contains the point
  is taken. The specification leaves the containment test to the implementation, so it
  is the parameter \<open>contains\<close>.
\<close>

definition newMembership ::
  "(boundingBox \<Rightarrow> real \<Rightarrow> real \<Rightarrow> bool) \<Rightarrow> town \<Rightarrow> userLocation \<Rightarrow> serverConversationArea option" where
  "newMembership contains t newLocation =
     (case conversationLabel newLocation of
        Some lbl \<Rightarrow> findArea lbl (conversationAreas t)
      | None \<Rightarrow>
          find (\<lambda>a. contains (boundingBox a) (loc_x newLocation) (loc_y newLocation))
            (conversationAreas t))"

text \<open>
  Modelled from the spec: \<^verbatim>\<open>updatePlayerLocation\<close> of the missing controller, steps 1
  to 4 of section 4.2.
\<close>

definition updatePlayerLocation ::
  "(boundingBox \<Rightarrow> real \<Rightarrow> real \<Rightarrow> bool) \<Rightarrow> heap \<Rightarrow> town \<Rightarrow> playerRef \<Rightarrow> userLocation
    \<Rightarrow> heap \<times> town \<times> notification list" where
  "updatePlayerLocation contains h t p newLocation =
     (let prior = activeConversationArea (h p);
          new = map_option label (newMembership contains t newLocation);
          (t1, n1) =
            (if prior \<noteq> new
             then (case prior of None \<Rightarrow> (t, []) | Some pl \<Rightarrow> leaveConversationArea t p pl)
             else (t, []));
          (t2, n2) =
            (if prior \<noteq> new
             then (case new of None \<Rightarrow> (t1, []) | Some nl \<Rightarrow> enterConversationArea t1 p nl)
             else (t1, []));
          h' = h(p := (h p)\<lparr>location := newLocation, activeConversationArea := new\<rparr>)
      in (h', t2, n1 @ n2 @ notifyAll t2 (OnPlayerMoved p)))"

text \<open>
  Modelled from the spec: \<^verbatim>\<open>addPlayer\<close> of the missing controller. The video token
  provider and the fresh session token are parameters. A failure of the provider is
  propagated and leaves no session behind.
\<close>

definition addPlayer ::
  "(string \<Rightarrow> playerRef \<Rightarrow> error + string) \<Rightarrow> string \<Rightarrow> town \<Rightarrow> playerRef
    \<Rightarrow> error + (playerSession \<times> town \<times> notification list)" where
  "addPlayer getTokenForTown newSessionToken t p =
     (case getTokenForTown (coveyTownID t) p of
        Inl e \<Rightarrow> Inl e
      | Inr token \<Rightarrow>
          (let theSession =
                 \<lparr>sessionPlayer = p, sessionToken = newSessionToken, videoToken = Some token\<rparr>;
               t' = t\<lparr>players := players t @ [p], sessions := sessions t @ [theSession]\<rparr>
           in Inr (theSession, t', notifyAll t' (OnPlayerJoined p))))"

text \<open>
  Modelled from the spec: \<^verbatim>\<open>destroySession\<close> of the missing controller. The player
  leaves every area whose occupant list holds its id, is taken off the player list, the
  session is discarded, and the listeners are told \<^verbatim>\<open>onPlayerDisconnected\<close>.
\<close>

fun leaveAll :: "town \<Rightarrow> playerRef \<Rightarrow> string list \<Rightarrow> town \<times> notification list" where
  "leaveAll t p [] = (t, [])"
| "leaveAll t p (lbl # lbls) =
     (let (t1, n1) = leaveConversationArea t p lbl;
          (t2, n2) = leaveAll t1 p lbls
      in (t2, n1 @ n2))"

definition destroySession :: "town \<Rightarrow> playerSession \<Rightarrow> town \<times> notification list" where
  "destroySession t s =
     (let p = sessionPlayer s;
          (t1, n1) =
            leaveAll t p
              (map label (filter (\<lambda>a. p \<in> set (occupantsByID a)) (conversationAreas t)));
          t2 = t1\<lparr>players := removeAll p (players t1),
                  sessions := filter (\<lambda>s'. sessionToken s' \<noteq> sessionToken s) (sessions t1)\<rparr>
      in (t2, n1 @ notifyAll t2 (OnPlayerDisconnected p)))"

text \<open>
  Modelled from the spec: \<^verbatim>\<open>disconnectAllPlayers\<close> of the missing controller. The
  listeners are told \<^verbatim>\<open>onTownDestroyed\<close>; then all subscriptions are dropped and the
  players and sessions cleared.
\<close>

definition disconnectAllPlayers :: "town \<Rightarrow> town \<times> notification list" where
  "disconnectAllPlayers t =
     (t\<lparr>listeners := [], players := [], sessions := []\<rparr>, notifyAll t OnTownDestroyed)"

text \<open>Modelled from the spec: \<^verbatim>\<open>onChatMessage\<close> of the missing controller, a pure fan-out.\<close>

definition onChatMessage :: "town \<Rightarrow> chatMessage \<Rightarrow> notification list" where
  "onChatMessage t message = notifyAll t (OnChatMessage message)"

subsection \<open>Music synchronisation\<close>

text \<open>
  Modelled from the spec: the controller's calls to the music service are not among the
  sources. This is the adapter of section 6 of the specification: \<^verbatim>\<open>startPlayback\<close> answers with a
  success flag, \<^verbatim>\<open>getCurrentTrack\<close> with a song or absent, \<^verbatim>\<open>getPlaybackState\<close> with the
  playing flag or absent. The calls an operation makes are returned as a list.
\<close>

record musicAdapter =
  adapterStartPlayback :: "string \<Rightarrow> playerRef \<Rightarrow> songData \<Rightarrow> bool"
  adapterGetCurrentTrack :: "string \<Rightarrow> playerRef \<Rightarrow> songData option"
  adapterGetPlaybackState :: "string \<Rightarrow> playerRef \<Rightarrow> bool option"

datatype adapterCall =
    StartPlayback string playerRef songData
  | GetCurrentTrack string playerRef
  | GetPlaybackState string playerRef

text \<open>
  Modelled from the spec: \<^verbatim>\<open>changePlayerSong\<close> of the missing controller. Playback is
  started from offset zero whatever progress the caller supplies; on success the player's
  song is set, with progress zero, and the listeners are told \<^verbatim>\<open>onPlayerSongUpdated\<close>;
  on failure nothing changes and nobody is told.
\<close>

definition changePlayerSong ::
  "musicAdapter \<Rightarrow> heap \<Rightarrow> town \<Rightarrow> playerRef \<Rightarrow> songData
    \<Rightarrow> heap \<times> adapterCall list \<times> notification list" where
  "changePlayerSong adapter h t p song =
     (let fromStart = song\<lparr>progress := 0\<rparr>;
          success = adapterStartPlayback adapter (coveyTownID t) p fromStart;
          calls = [StartPlayback (coveyTownID t) p fromStart]
      in if success
         then (h(p := (h p)\<lparr>spotifySong := Some fromStart\<rparr>), calls,
               notifyAll t (OnPlayerSongUpdated p))
         else (h, calls, []))"

text \<open>
  Modelled from the spec: \<^verbatim>\<open>updatePlayerSongs\<close> of the missing controller. For each
  player of the town, in turn, both queries are made; the song is set, and the listeners
  told, when the state says playing and a track came back, and cleared otherwise. The
  specification names no notification for the clearing case, and none is made.
\<close>

fun updateSongs ::
  "musicAdapter \<Rightarrow> town \<Rightarrow> playerRef list \<Rightarrow> heap \<Rightarrow> heap \<times> adapterCall list \<times> notification list" where
  "updateSongs adapter t [] h = (h, [], [])"
| "updateSongs adapter t (p # ps) h =
     (let track = adapterGetCurrentTrack adapter (coveyTownID t) p;
          state = adapterGetPlaybackState adapter (coveyTownID t) p;
          nowPlaying = (if state = Some True then track else None);
          h1 = h(p := (h p)\<lparr>spotifySong := nowPlaying\<rparr>);
          n1 = (if nowPlaying = None then [] else notifyAll t (OnPlayerSongUpdated p));
          (h2, c2, n2) = updateSongs adapter t ps h1
      in (h2,
          [GetCurrentTrack (coveyTownID t) p, GetPlaybackState (coveyTownID t) p] @ c2,
          n1 @ n2))"

definition updatePlayerSongs ::
  "musicAdapter \<Rightarrow> heap \<Rightarrow> town \<Rightarrow> heap \<times> adapterCall list \<times> notification list" where
  "updatePlayerSongs adapter h t = updateSongs adapter t (players t) h"

subsection \<open>Sequences of controller operations\<close>

text \<open>
  Modelled from the spec: the operations of the missing controller that deliver
  notifications, as commands, and what each needs from outside: the containment test,
  the video token provider and the music adapter. \<open>applyOp\<close> runs one command and
  \<open>runOps\<close> a sequence, each command with the collaborators of its moment; an
  \<^verbatim>\<open>addPlayer\<close> whose video token fails changes nothing and notifies nobody.
\<close>

datatype townOp =
    UpdatePlayerLocation playerRef userLocation
  | DestroySession playerSession
  | AddPlayer playerRef string
  | DisconnectAllPlayers
  | UpdatePlayerSongs
  | ChangePlayerSong playerRef songData
  | ChatMessage chatMessage

record collaborators =
  containsPoint :: "boundingBox \<Rightarrow> real \<Rightarrow> real \<Rightarrow> bool"
  videoTokenFor :: "string \<Rightarrow> playerRef \<Rightarrow> error + string"
  music :: musicAdapter

fun applyOp :: "collaborators \<Rightarrow> townOp \<Rightarrow> heap \<times> town \<Rightarrow> (heap \<times> town) \<times> notification list" where
  "applyOp env (UpdatePlayerLocation p newLocation) (h, t) =
     (case updatePlayerLocation (containsPoint env) h t p newLocation of
        (h', t', ns) \<Rightarrow> ((h', t'), ns))"
| "applyOp env (DestroySession s) (h, t) =
     (case destroySession t s of (t', ns) \<Rightarrow> ((h, t'), ns))"
| "applyOp env (AddPlayer p newSessionToken) (h, t) =
     (case addPlayer (videoTokenFor env) newSessionToken t p of
        Inl e \<Rightarrow> ((h, t), [])
      | Inr (s, t', ns) \<Rightarrow> ((h, t'), ns))"
| "applyOp env DisconnectAllPlayers (h, t) =
     (case disconnectAllPlayers t of (t', ns) \<Rightarrow> ((h, t'), ns))"
| "applyOp env UpdatePlayerSongs (h, t) =
     (case updatePlayerSongs (music env) h t of (h', calls, ns) \<Rightarrow> ((h', t), ns))"
| "applyOp env (ChangePlayerSong p song) (h, t) =
     (case changePlayerSong (music env) h t p song of (h', calls, ns) \<Rightarrow> ((h', t), ns))"
| "applyOp env (ChatMessage message) (h, t) = ((h, t), onChatMessage t message)"

fun runOps :: "(collaborators \<times> townOp) list \<Rightarrow> heap \<times> town \<Rightarrow> (heap \<times> town) \<times> notification list" where
  "runOps [] st = (st, [])"
| "runOps ((env, op) # rest) st =
     (case applyOp env op st of
        (st1, n1) \<Rightarrow> (case runOps rest st1 of (st2, n2) \<Rightarrow> (st2, n1 @ n2)))"

section \<open>The town registry\<close>

text \<open>
  Modelled from the spec: \<^verbatim>\<open>CoveyTownsStore\<close> is not among the sources. The registry
  is the list of its towns; \<^verbatim>\<open>getControllerForTown\<close> looks a town up by its id.
\<close>

definition getControllerForTown :: "town list \<Rightarrow> string \<Rightarrow> town option" where
  "getControllerForTown ts townID = find (\<lambda>t. coveyTownID t = townID) ts"

text \<open>
  Modelled from the spec: \<^verbatim>\<open>createTown\<close> of the missing registry. It fails on an empty
  name; otherwise the town is built with the fresh id and password, which are
  parameters, and indexed.
\<close>

definition createTown ::
  "string \<Rightarrow> string \<Rightarrow> town list \<Rightarrow> string \<Rightarrow> bool \<Rightarrow> (town \<times> town list) option" where
  "createTown newID newPassword ts name isListed =
     (if name = [] then None
      else
        (let newTown =
               \<lparr>coveyTownID = newID, friendlyName = name, isPubliclyListed = isListed,
                townUpdatePassword = newPassword, players = [], sessions = [],
                conversationAreas = [], listeners = []\<rparr>
         in Some (newTown, ts @ [newTown])))"

text \<open>
  Modelled from the spec: \<^verbatim>\<open>deleteTown\<close> of the missing registry. It succeeds only on
  an exact password match; then all players are disconnected and the town is taken out
  of the index.
\<close>

definition deleteTown :: "town list \<Rightarrow> string \<Rightarrow> string \<Rightarrow> bool \<times> town list \<times> notification list" where
  "deleteTown ts townID password =
     (case getControllerForTown ts townID of
        None \<Rightarrow> (False, ts, [])
      | Some existingTown \<Rightarrow>
          if townUpdatePassword existingTown = password
          then (True, filter (\<lambda>t. coveyTownID t \<noteq> townID) ts,
                snd (disconnectAllPlayers existingTown))
          else (False, ts, []))"

fun replaceTown :: "town \<Rightarrow> town list \<Rightarrow> town list" where
  "replaceTown t' [] = []"
| "replaceTown t' (t # ts) =
     (if coveyTownID t = coveyTownID t' then t' # ts else t # replaceTown t' ts)"

text \<open>
  Modelled from the spec: \<^verbatim>\<open>updateTown\<close> of the missing registry. It succeeds only on a
  password match and at least one valid field; an empty name is rejected; only the
  fields provided are updated.
\<close>

definition updateTown ::
  "town list \<Rightarrow> string \<Rightarrow> string \<Rightarrow> string option \<Rightarrow> bool option \<Rightarrow> bool \<times> town list" where
  "updateTown ts townID password newName newListed =
     (case getControllerForTown ts townID of
        None \<Rightarrow> (False, ts)
      | Some existingTown \<Rightarrow>
          if townUpdatePassword existingTown \<noteq> password then (False, ts)
          else if newName = Some [] then (False, ts)
          else if newName = None \<and> newListed = None then (False, ts)
          else
            (let t1 = (case newName of None \<Rightarrow> existingTown
                       | Some name \<Rightarrow> existingTown\<lparr>friendlyName := name\<rparr>);
                 t2 = (case newListed of None \<Rightarrow> t1
                       | Some listed \<Rightarrow> t1\<lparr>isPubliclyListed := listed\<rparr>)
             in (True, replaceTown t2 ts)))"

text \<open>
  Modelled from the spec: \<^verbatim>\<open>getTowns\<close> of the missing registry lists the listed towns
  only, each with its id, name, visibility and occupancy.
\<close>

record coveyTownInfo =
  infoCoveyTownID :: string
  infoFriendlyName :: string
  infoIsPubliclyListed :: bool
  currentOccupancy :: nat

definition getTowns :: "town list \<Rightarrow> coveyTownInfo list" where
  "getTowns ts =
     map (\<lambda>t. \<lparr>infoCoveyTownID = coveyTownID t, infoFriendlyName = friendlyName t,
                infoIsPubliclyListed = isPubliclyListed t,
                currentOccupancy = length (players t)\<rparr>)
       (filter isPubliclyListed ts)"

section \<open>The request handlers\<close>

text \<open>
  The requests and responses of \<^verbatim>\<open>CoveyTownRequestHandlers.ts\<close>. A field whose name is
  also a field of the town carries the name of its request or response as a prefix.
\<close>

record townJoinRequest =
  joinUserName :: string
  joinCoveyTownID :: string
  spotifySessionToken :: "string option"

record townJoinResponse =
  coveyUserID :: string
  coveySessionToken :: string
  providerVideoToken :: string
  currentPlayers :: "playerRef list"
  joinedFriendlyName :: string
  joinedIsPubliclyListed :: bool
  joinedConversationAreas :: "serverConversationArea list"

record townCreateRequest =
  createFriendlyName :: string
  createIsPubliclyListed :: bool

record townCreateResponse =
  createdCoveyTownID :: string
  createdCoveyTownPassword :: string

record townDeleteRequest =
  deleteCoveyTownID :: string
  deleteCoveyTownPassword :: string

record townUpdateRequest =
  updateCoveyTownID :: string
  updateCoveyTownPassword :: string
  updateFriendlyName :: "string option"
  updateIsPubliclyListed :: "bool option"

record 'a responseEnvelope =
  isOK :: bool
  message :: "string option"
  response :: "'a option"

text \<open>
  What the handlers work on: the registry behind \<^verbatim>\<open>CoveyTownsStore.getInstance()\<close>, the
  player objects, and the maps of \<^verbatim>\<open>SpotifyClient\<close>.
\<close>

record server =
  towns :: "town list"
  playerObjects :: heap
  clientMaps :: townsToPlayerMaps

text \<open>
  \<^verbatim>\<open>townJoinHandler\<close>. The handler has no \<^verbatim>\<open>try\<close> block: an error of \<^verbatim>\<open>addPlayer\<close>, of
  \<^verbatim>\<open>addTownPlayerToClient\<close> or of the assertion on the video token leaves it as the
  left summand, with the state reached by then. The id of the new player, its starting
  location, the session token, the video token provider and the JSON parser are
  parameters. The credential is linked only when it is a non-empty string.
\<close>

definition townJoinHandler ::
  "(string \<Rightarrow> playerRef \<Rightarrow> error + string) \<Rightarrow> (string \<Rightarrow> json option) \<Rightarrow> playerRef
    \<Rightarrow> userLocation \<Rightarrow> string \<Rightarrow> server \<Rightarrow> townJoinRequest
    \<Rightarrow> (error + townJoinResponse responseEnvelope) \<times> server \<times> notification list" where
  "townJoinHandler provider parse newPlayerID startLocation newSessionToken st requestData =
     (case getControllerForTown (towns st) (joinCoveyTownID requestData) of
        None \<Rightarrow>
          (Inr \<lparr>isOK = False, message = Some ''Error: No such town'', response = None\<rparr>, st, [])
      | Some coveyTownController \<Rightarrow>
          (let newPlayer =
                 \<lparr>userName = joinUserName requestData, location = startLocation,
                  activeConversationArea = None, spotifySong = None\<rparr>;
               st1 = st\<lparr>playerObjects := (playerObjects st)(newPlayerID := newPlayer)\<rparr>
           in case addPlayer provider newSessionToken coveyTownController newPlayerID of
                Inl e \<Rightarrow> (Inl e, st1, [])
              | Inr (newSession, controller', ns) \<Rightarrow>
                  (let st2 = st1\<lparr>towns := replaceTown controller' (towns st1)\<rparr>;
                       linked =
                         (case spotifySessionToken requestData of
                            None \<Rightarrow> (Inr (), clientMaps st2)
                          | Some token \<Rightarrow>
                              if token = [] then (Inr (), clientMaps st2)
                              else addTownPlayerToClient parse (clientMaps st2)
                                     (joinCoveyTownID requestData) newPlayerID token)
                   in case fst linked of
                        Inl e \<Rightarrow> (Inl e, st2, ns)
                      | Inr u \<Rightarrow>
                          (let st3 = st2\<lparr>clientMaps := snd linked\<rparr>
                           in case videoToken newSession of
                                None \<Rightarrow> (Inl AssertionError, st3, ns)
                              | Some token \<Rightarrow>
                                  if token = [] then (Inl AssertionError, st3, ns)
                                  else
                                    (Inr \<lparr>isOK = True, message = None,
                                          response = Some
                                            \<lparr>coveyUserID = newPlayerID,
                                             coveySessionToken = sessionToken newSession,
                                             providerVideoToken = token,
                                             currentPlayers = players controller',
                                             joinedFriendlyName = friendlyName controller',
                                             joinedIsPubliclyListed = isPubliclyListed controller',
                                             joinedConversationAreas =
                                               conversationAreas controller'\<rparr>\<rparr>,
                                     st3, ns)))))"

definition townListHandler :: "server \<Rightarrow> coveyTownInfo list responseEnvelope" where
  "townListHandler st = \<lparr>isOK = True, message = None, response = Some (getTowns (towns st))\<rparr>"

text \<open>
  \<^verbatim>\<open>townCreateHandler\<close>. An empty name is refused before \<^verbatim>\<open>createTown\<close> is called; a
  failure of \<^verbatim>\<open>createTown\<close> itself would leave the handler as an error.
\<close>

definition townCreateHandler ::
  "string \<Rightarrow> string \<Rightarrow> server \<Rightarrow> townCreateRequest
    \<Rightarrow> (error + townCreateResponse responseEnvelope) \<times> server" where
  "townCreateHandler newID newPassword st requestData =
     (if length (createFriendlyName requestData) = 0
      then (Inr \<lparr>isOK = False, message = Some ''FriendlyName must be specified'',
                 response = None\<rparr>, st)
      else
        (case createTown newID newPassword (towns st) (createFriendlyName requestData)
                (createIsPubliclyListed requestData) of
           None \<Rightarrow> (Inl TownCreationFailed, st)
         | Some (newTown, ts) \<Rightarrow>
             (Inr \<lparr>isOK = True, message = None,
                   response = Some \<lparr>createdCoveyTownID = coveyTownID newTown,
                                    createdCoveyTownPassword = townUpdatePassword newTown\<rparr>\<rparr>,
              st\<lparr>towns := ts,
                 clientMaps := addTownToClient (clientMaps st) (coveyTownID newTown)\<rparr>)))"

text \<open>
  \<^verbatim>\<open>townDeleteHandler\<close>. \<^verbatim>\<open>removeTownFromClient\<close> is called after \<^verbatim>\<open>deleteTown\<close>, whatever
  \<^verbatim>\<open>deleteTown\<close> answered.
\<close>

definition townDeleteHandler ::
  "server \<Rightarrow> townDeleteRequest \<Rightarrow> unit responseEnvelope \<times> server \<times> notification list" where
  "townDeleteHandler st requestData =
     (case deleteTown (towns st) (deleteCoveyTownID requestData)
             (deleteCoveyTownPassword requestData) of
        (success, ts, ns) \<Rightarrow>
          (\<lparr>isOK = success,
            message =
              (if \<not> success
               then Some ''Invalid password. Please double check your town update password.''
               else None),
            response = Some ()\<rparr>,
           st\<lparr>towns := ts,
              clientMaps := removeTownFromClient (clientMaps st) (deleteCoveyTownID requestData)\<rparr>,
           ns))"

definition townUpdateHandler :: "server \<Rightarrow> townUpdateRequest \<Rightarrow> unit responseEnvelope \<times> server" where
  "townUpdateHandler st requestData =
     (case updateTown (towns st) (updateCoveyTownID requestData)
             (updateCoveyTownPassword requestData) (updateFriendlyName requestData)
             (updateIsPubliclyListed requestData) of
        (success, ts) \<Rightarrow>
          (\<lparr>isOK = success,
            message =
              (if \<not> success
               then Some ''Invalid password or update values specified. Please double check your town update password.''
               else None),
            response = Some ()\<rparr>,
           st\<lparr>towns := ts\<rparr>))"

section \<open>Predicates on notifications\<close>

text \<open>
  Every event among the notifications \<open>ns\<close> has been delivered to every listener of
  \<open>ls\<close>.
\<close>

definition deliveredToAll :: "listener list \<Rightarrow> notification list \<Rightarrow> bool" where
  "deliveredToAll ls ns = list_all (\<lambda>n. list_all (\<lambda>l. (l, snd n) \<in> set ns) ls) ns"

section \<open>Example inputs\<close>

text \<open>
  The values of \<^verbatim>\<open>JSON.parse\<close> on the credential strings of the examples below: the two
  tokens of the controller's tests, the literal \<^verbatim>\<open>null\<close>, and a string that is no JSON
  text. It instantiates the parser in closed examples only.
\<close>

definition parseExamples :: "string \<Rightarrow> json option" where
  "parseExamples s =
     (if s = ''{\"access_token\":\"test_token_1\", \"expiry\":3600}''
        then Some (JObj [(''access_token'', JStr ''test_token_1''), (''expiry'', JNum 3600)])
      else if s = ''{\"access_token\":\"test_token_2\", \"expiry\":3600}''
        then Some (JObj [(''access_token'', JStr ''test_token_2''), (''expiry'', JNum 3600)])
      else if s = ''null'' then Some JNull
      else None)"

text \<open>
  The fixtures of the controller's tests: a conversation area with the box
  \<^verbatim>\<open>{x: 10, y: 10, height: 5, width: 5}\<close>, the test song, a town with two players and
  three listeners, and a server holding that town with the first player's token linked.
\<close>

definition exampleLocation :: userLocation where
  "exampleLocation =
     \<lparr>loc_x = 0, loc_y = 0, rotation = ''front'', moving = False, conversationLabel = None\<rparr>"

definition examplePlayer :: player where
  "examplePlayer =
     \<lparr>userName = ''test player'', location = exampleLocation,
      activeConversationArea = None, spotifySong = None\<rparr>"

definition exampleHeap :: heap where
  "exampleHeap = (\<lambda>ref. examplePlayer)"

definition exampleArea :: serverConversationArea where
  "exampleArea =
     \<lparr>label = ''area1'', topic = ''topic1'',
      boundingBox = \<lparr>box_x = 10, box_y = 10, box_width = 5, box_height = 5\<rparr>,
      occupantsByID = []\<rparr>"

definition exampleTown :: town where
  "exampleTown =
     \<lparr>coveyTownID = ''town1'', friendlyName = ''Test town'', isPubliclyListed = False,
      townUpdatePassword = ''secret'', players = [''player1'', ''player2''],
      sessions = [], conversationAreas = [exampleArea], listeners = [0, 1, 2]\<rparr>"

definition testSong :: songData where
  "testSong =
     \<lparr>displayTitle = ''Testing Song by Tests'', uris = [''spotify:track:t35t1ng123ur1''],
      progress = 2000\<rparr>"

definition testSongFromStart :: songData where
  "testSongFromStart =
     \<lparr>displayTitle = ''Testing Song by Tests'', uris = [''spotify:track:t35t1ng123ur1''],
      progress = 0\<rparr>"

text \<open>An adapter whose account is playing the test song, and one whose calls all fail.\<close>

definition playingAdapter :: musicAdapter where
  "playingAdapter =
     \<lparr>adapterStartPlayback = (\<lambda>townID p song. True),
      adapterGetCurrentTrack = (\<lambda>townID p. Some testSong),
      adapterGetPlaybackState = (\<lambda>townID p. Some True)\<rparr>"

definition failingAdapter :: musicAdapter where
  "failingAdapter =
     \<lparr>adapterStartPlayback = (\<lambda>townID p song. False),
      adapterGetCurrentTrack = (\<lambda>townID p. None),
      adapterGetPlaybackState = (\<lambda>townID p. None)\<rparr>"

text \<open>
  An adapter under which only the first player is playing: the second has a track
  loaded but paused.
\<close>

definition mixedAdapter :: musicAdapter where
  "mixedAdapter =
     \<lparr>adapterStartPlayback = (\<lambda>townID p song. p = ''player1''),
      adapterGetCurrentTrack = (\<lambda>townID p. Some testSong),
      adapterGetPlaybackState = (\<lambda>townID p. Some (p = ''player1''))\<rparr>"

text \<open>
  A containment test, inclusive on the low edges and exclusive on the high ones, for the
  parameter of \<open>updatePlayerLocation\<close>.
\<close>

definition lowInclusiveBox :: "boundingBox \<Rightarrow> real \<Rightarrow> real \<Rightarrow> bool" where
  "lowInclusiveBox b px py \<longleftrightarrow>
     box_x b \<le> px \<and> px < box_x b + box_width b \<and> box_y b \<le> py \<and> py < box_y b + box_height b"

definition videoOK :: "string \<Rightarrow> playerRef \<Rightarrow> error + string" where
  "videoOK townID p = Inr ''video-token''"

definition videoDown :: "string \<Rightarrow> playerRef \<Rightarrow> error + string" where
  "videoDown townID p = Inl VideoTokenError"

text \<open>A video token provider that answers with an empty token.\<close>

definition videoEmpty :: "string \<Rightarrow> playerRef \<Rightarrow> error + string" where
  "videoEmpty townID p = Inr []"

definition exampleCollaborators :: collaborators where
  "exampleCollaborators =
     \<lparr>containsPoint = lowInclusiveBox, videoTokenFor = videoOK, music = playingAdapter\<rparr>"



definition exampleMaps :: townsToPlayerMaps where
  "exampleMaps =
     [''town1'' \<mapsto>
        [''player1'' \<mapsto>
           \<lparr>accessToken = Some (JStr ''test_token_1''), expiry = Some (JNum 3600)\<rparr>]]"

definition exampleServer :: server where
  "exampleServer =
     \<lparr>towns = [exampleTown], playerObjects = exampleHeap, clientMaps = exampleMaps\<rparr>"

section \<open>Properties of SpotifyClient\<close>

lemma getProp_no_throw: "v \<noteq> JNull \<Longrightarrow> \<exists>r. getProp (Some v) k = Inr r"
  by (cases v) simp_all

text \<open>
  C8. For every credential string that \<^verbatim>\<open>JSON.parse\<close> rejects, \<^verbatim>\<open>addTownPlayerToClient\<close>
  raises an error and returns the town-to-player-token maps as they were: nothing is
  stored for any town or player.
\<close>

theorem addTownPlayerToClient_unparseable:
  assumes "parse spotifyToken = None"
  shows "addTownPlayerToClient parse m townID player spotifyToken
           = (Inl (Error (parseErrorMessage spotifyToken)), m)"
  using assms by (simp add: addTownPlayerToClient_def)

theorem addTownPlayerToClient_unparseable_witness:
  "parseExamples ''not json'' = None
   \<and> addTownPlayerToClient parseExamples (addTownToClient Map.empty ''town1'') ''town1''
        ''player1'' ''not json''
       = (Inl (Error ''Error parsing token \"not json\"''), addTownToClient Map.empty ''town1'')"
  using addTownPlayerToClient_unparseable [where parse = parseExamples
      and spotifyToken = "''not json''" and m = "addTownToClient Map.empty ''town1''"
      and townID = "''town1''" and player = "''player1''"]
  by (simp add: parseExamples_def parseErrorMessage_def)

lemma removeTownFromClient_unregisters: "removeTownFromClient m townID townID = None"
  by (simp add: removeTownFromClient_def)

text \<open>
  C9, as stated, fails: the credential \<^verbatim>\<open>null\<close> is parseable, yet reading
  \<^verbatim>\<open>access_token\<close> of the parsed \<^verbatim>\<open>null\<close> throws inside the \<^verbatim>\<open>try\<close> block, so
  \<^verbatim>\<open>addTownPlayerToClient\<close> raises for a town that was never registered.
\<close>

theorem addTownPlayerToClient_null_credential_raises:
  "parseExamples ''null'' = Some JNull
   \<and> (Map.empty :: townsToPlayerMaps) ''town1'' = None
   \<and> fst (addTownPlayerToClient parseExamples Map.empty ''town1'' ''player1'' ''null'')
       = Inl (Error ''Error parsing token \"null\"'')"
  by (simp add: addTownPlayerToClient_def parseExamples_def parseErrorMessage_def)

text \<open>
  C9, amended. If \<^verbatim>\<open>addTownPlayerToClient\<close> is called with a credential that parses to a
  value other than \<^verbatim>\<open>null\<close>, for a town id that has no entry in the client (never
  registered, or removed), it returns normally, leaves the maps as they were, and a
  following \<^verbatim>\<open>getTokenForTownPlayer\<close> for that town and player gives \<^verbatim>\<open>undefined\<close>.
\<close>

theorem addTownPlayerToClient_unregistered_town:
  assumes "parse spotifyToken = Some tokenJson"
    and "tokenJson \<noteq> JNull"
    and "m townID = None"
  shows "addTownPlayerToClient parse m townID player spotifyToken = (Inr (), m)
         \<and> getTokenForTownPlayer
              (snd (addTownPlayerToClient parse m townID player spotifyToken))
              townID player = None"
proof -
  obtain a where a: "getProp (Some tokenJson) ''access_token'' = Inr a"
    using getProp_no_throw [OF assms(2)] by blast
  obtain b where b: "getProp (Some tokenJson) ''expiry'' = Inr b"
    using getProp_no_throw [OF assms(2)] by blast
  have r: "addTownPlayerToClient parse m townID player spotifyToken = (Inr (), m)"
    using assms(1) assms(3) a b by (simp add: addTownPlayerToClient_def)
  have "getTokenForTownPlayer m townID player = None"
    using assms(3) by (simp add: getTokenForTownPlayer_def)
  with r show ?thesis by simp
qed

theorem addTownPlayerToClient_unregistered_town_witness:
  "parseExamples ''{\"access_token\":\"test_token_1\", \"expiry\":3600}''
     = Some (JObj [(''access_token'', JStr ''test_token_1''), (''expiry'', JNum 3600)])
   \<and> JObj [(''access_token'', JStr ''test_token_1''), (''expiry'', JNum 3600)] \<noteq> JNull
   \<and> removeTownFromClient (addTownToClient Map.empty ''town1'') ''town1'' ''town1'' = None
   \<and> addTownPlayerToClient parseExamples
        (removeTownFromClient (addTownToClient Map.empty ''town1'') ''town1'') ''town1''
        ''player1'' ''{\"access_token\":\"test_token_1\", \"expiry\":3600}''
       = (Inr (), removeTownFromClient (addTownToClient Map.empty ''town1'') ''town1'')
   \<and> getTokenForTownPlayer
        (snd (addTownPlayerToClient parseExamples
           (removeTownFromClient (addTownToClient Map.empty ''town1'') ''town1'') ''town1''
           ''player1'' ''{\"access_token\":\"test_token_1\", \"expiry\":3600}''))
        ''town1'' ''player1'' = None"
proof -
  have p: "parseExamples ''{\"access_token\":\"test_token_1\", \"expiry\":3600}''
     = Some (JObj [(''access_token'', JStr ''test_token_1''), (''expiry'', JNum 3600)])"
    by (simp add: parseExamples_def)
  have n: "JObj [(''access_token'', JStr ''test_token_1''), (''expiry'', JNum 3600)] \<noteq> JNull"
    by simp
  have u: "removeTownFromClient (addTownToClient Map.empty ''town1'') ''town1'' ''town1'' = None"
    by (simp add: removeTownFromClient_def)
  note t = addTownPlayerToClient_unregistered_town [where parse = parseExamples
      and spotifyToken = "''{\"access_token\":\"test_token_1\", \"expiry\":3600}''"
      and tokenJson = "JObj [(''access_token'', JStr ''test_token_1''), (''expiry'', JNum 3600)]"
      and m = "removeTownFromClient (addTownToClient Map.empty ''town1'') ''town1''"
      and townID = "''town1''" and player = "''player1''"]
  from t [OF p n u] p n u show ?thesis
    by blast
qed

text \<open>
  C10, as stated, fails: a response whose body is \<^verbatim>\<open>null\<close> has no item, yet
  \<^verbatim>\<open>getPlaybackState\<close> does not return absent there; reading \<^verbatim>\<open>item\<close> of the body throws
  a TypeError outside any \<^verbatim>\<open>try\<close> block.
\<close>

theorem getPlaybackState_null_body_throws:
  "getPlaybackState (\<lambda>apiURL playerToken. Some \<lparr>data = Some JNull\<rparr>) Map.empty
     ''town1'' ''player1'' = Inl TypeError"
  by (simp add: getPlaybackState_def getSpotifyAPICallResponse_def playbackStateOfResponse_def)

text \<open>
  C10, amended. \<^verbatim>\<open>getPlaybackState\<close> returns a playback state only when the response
  body has a truthy \<^verbatim>\<open>item\<close>, and the state then carries the body's \<^verbatim>\<open>is_playing\<close>.
  Whenever the request fails, or the body is a value other than \<^verbatim>\<open>null\<close> and
  \<^verbatim>\<open>undefined\<close> whose \<^verbatim>\<open>item\<close> is missing or falsy, it returns absent, whatever
  \<^verbatim>\<open>is_playing\<close> the body carries: at this interface an account with no loaded track is
  not told apart from a failed call.
\<close>

theorem getPlaybackState_requires_item:
  "(getPlaybackState axios_get m townID player = Inr (Some st) \<longrightarrow>
      (\<exists>info item.
         getSpotifyAPICallResponse axios_get m ''https://api.spotify.com/v1/me/player''
           townID player = Some info
         \<and> getProp (data info) ''item'' = Inr item \<and> truthy item
         \<and> getProp (data info) ''is_playing'' = Inr (isPlaying st)))
   \<and> (getSpotifyAPICallResponse axios_get m ''https://api.spotify.com/v1/me/player''
         townID player = None \<longrightarrow>
       getPlaybackState axios_get m townID player = Inr None)
   \<and> (\<forall>info item.
         getSpotifyAPICallResponse axios_get m ''https://api.spotify.com/v1/me/player''
           townID player = Some info
         \<and> getProp (data info) ''item'' = Inr item \<and> \<not> truthy item \<longrightarrow>
         getPlaybackState axios_get m townID player = Inr None)"
  by (auto simp: getPlaybackState_def playbackStateOfResponse_def Let_def
      split: option.splits sum.splits if_splits)

theorem getPlaybackState_requires_item_witness:
  "getPlaybackState
     (\<lambda>apiURL playerToken. Some \<lparr>data = Some (JObj [(''is_playing'', JBool True)])\<rparr>)
     Map.empty ''town1'' ''player1'' = Inr None
   \<and> getPlaybackState
     (\<lambda>apiURL playerToken. Some \<lparr>data = Some (JObj [(''is_playing'', JBool True),
        (''item'', JNull)])\<rparr>)
     Map.empty ''town1'' ''player1'' = Inr None
   \<and> getPlaybackState (\<lambda>apiURL playerToken. None) Map.empty ''town1'' ''player1'' = Inr None
   \<and> getPlaybackState
     (\<lambda>apiURL playerToken. Some \<lparr>data = Some (JObj [(''is_playing'', JBool True),
        (''item'', JObj [(''name'', JStr ''song'')])])\<rparr>)
     Map.empty ''town1'' ''player1'' = Inr (Some \<lparr>isPlaying = Some (JBool True)\<rparr>)"
proof -
  have a: "getPlaybackState
     (\<lambda>apiURL playerToken. Some \<lparr>data = Some (JObj [(''is_playing'', JBool True)])\<rparr>)
     Map.empty ''town1'' ''player1'' = Inr None"
    using getPlaybackState_requires_item
      [of "\<lambda>apiURL playerToken. Some \<lparr>data = Some (JObj [(''is_playing'', JBool True)])\<rparr>"
        Map.empty "''town1''" "''player1''"]
    by (simp add: getSpotifyAPICallResponse_def)
  have b: "getPlaybackState
     (\<lambda>apiURL playerToken. Some \<lparr>data = Some (JObj [(''is_playing'', JBool True),
        (''item'', JNull)])\<rparr>)
     Map.empty ''town1'' ''player1'' = Inr None"
    using getPlaybackState_requires_item
      [of "\<lambda>apiURL playerToken. Some \<lparr>data = Some (JObj [(''is_playing'', JBool True),
        (''item'', JNull)])\<rparr>" Map.empty "''town1''" "''player1''"]
    by (simp add: getSpotifyAPICallResponse_def)
  have c: "getPlaybackState (\<lambda>apiURL playerToken. None) Map.empty ''town1'' ''player1''
      = Inr None"
    using getPlaybackState_requires_item
      [of "\<lambda>apiURL playerToken. None" Map.empty "''town1''" "''player1''"]
    by (simp add: getSpotifyAPICallResponse_def)
  have d: "getPlaybackState
     (\<lambda>apiURL playerToken. Some \<lparr>data = Some (JObj [(''is_playing'', JBool True),
        (''item'', JObj [(''name'', JStr ''song'')])])\<rparr>)
     Map.empty ''town1'' ''player1'' = Inr (Some \<lparr>isPlaying = Some (JBool True)\<rparr>)"
    by (simp add: getPlaybackState_def getSpotifyAPICallResponse_def
        playbackStateOfResponse_def)
  from a b c d show ?thesis by blast
qed

section \<open>Properties of the town controller\<close>

lemma filter_notifications_of_listener:
  "distinct ls \<Longrightarrow>
   filter (\<lambda>n. fst n = l) (map (\<lambda>l'. (l', e)) ls) = (if l \<in> set ls then [(l, e)] else [])"
  by (induction ls) auto

text \<open>
  C1. For every player and every song: if the adapter's \<^verbatim>\<open>startPlayback\<close> call
  succeeds, \<^verbatim>\<open>changePlayerSong\<close> sets the player's song to the supplied song with
  progress 0, changes no other player, and delivers \<^verbatim>\<open>onPlayerSongUpdated\<close> exactly once
  to every subscribed listener and to nobody else; if the call fails, the players are
  left as they were and nothing is delivered. Listeners form a set, so the list of
  subscriptions is taken to be free of duplicates.
\<close>

theorem changePlayerSong_outcome:
  assumes "distinct (listeners t)"
  shows "(adapterStartPlayback adapter (coveyTownID t) p (song\<lparr>progress := 0\<rparr>) \<longrightarrow>
            fst (changePlayerSong adapter h t p song)
              = h(p := (h p)\<lparr>spotifySong := Some (song\<lparr>progress := 0\<rparr>)\<rparr>)
            \<and> (\<forall>l. filter (\<lambda>n. fst n = l) (snd (snd (changePlayerSong adapter h t p song)))
                  = (if l \<in> set (listeners t) then [(l, OnPlayerSongUpdated p)] else [])))
       \<and> (\<not> adapterStartPlayback adapter (coveyTownID t) p (song\<lparr>progress := 0\<rparr>) \<longrightarrow>
            fst (changePlayerSong adapter h t p song) = h
            \<and> snd (snd (changePlayerSong adapter h t p song)) = [])"
  using assms
  by (simp add: changePlayerSong_def Let_def notifyAll_def filter_notifications_of_listener)

theorem changePlayerSong_outcome_witness:
  "distinct (listeners exampleTown)
   \<and> adapterStartPlayback playingAdapter (coveyTownID exampleTown) ''player1''
        (testSong\<lparr>progress := 0\<rparr>)
   \<and> spotifySong (fst (changePlayerSong playingAdapter exampleHeap exampleTown ''player1''
          testSong) ''player1'') = Some testSongFromStart
   \<and> filter (\<lambda>n. fst n = 1)
        (snd (snd (changePlayerSong playingAdapter exampleHeap exampleTown ''player1'' testSong)))
       = [(1, OnPlayerSongUpdated ''player1'')]
   \<and> filter (\<lambda>n. fst n = 7)
        (snd (snd (changePlayerSong playingAdapter exampleHeap exampleTown ''player1'' testSong)))
       = []
   \<and> \<not> adapterStartPlayback failingAdapter (coveyTownID exampleTown) ''player1''
          (testSong\<lparr>progress := 0\<rparr>)
   \<and> fst (changePlayerSong failingAdapter exampleHeap exampleTown ''player1'' testSong)
       = exampleHeap
   \<and> snd (snd (changePlayerSong failingAdapter exampleHeap exampleTown ''player1'' testSong))
       = []"
proof -
  have d: "distinct (listeners exampleTown)"
    by (simp add: exampleTown_def)
  have ok: "adapterStartPlayback playingAdapter (coveyTownID exampleTown) ''player1''
        (testSong\<lparr>progress := 0\<rparr>)"
    by (simp add: playingAdapter_def)
  have ko: "\<not> adapterStartPlayback failingAdapter (coveyTownID exampleTown) ''player1''
        (testSong\<lparr>progress := 0\<rparr>)"
    by (simp add: failingAdapter_def)
  note good = changePlayerSong_outcome [OF d, where adapter = playingAdapter
      and p = "''player1''" and song = testSong and h = exampleHeap]
  note bad = changePlayerSong_outcome [OF d, where adapter = failingAdapter
      and p = "''player1''" and song = testSong and h = exampleHeap]
  have s: "spotifySong (fst (changePlayerSong playingAdapter exampleHeap exampleTown ''player1''
          testSong) ''player1'') = Some testSongFromStart"
    using good ok by (simp add: testSong_def testSongFromStart_def)
  have l1: "filter (\<lambda>n. fst n = 1)
        (snd (snd (changePlayerSong playingAdapter exampleHeap exampleTown ''player1'' testSong)))
       = [(1, OnPlayerSongUpdated ''player1'')]"
    using good ok by (simp add: exampleTown_def)
  have l7: "filter (\<lambda>n. fst n = 7)
        (snd (snd (changePlayerSong playingAdapter exampleHeap exampleTown ''player1'' testSong)))
       = []"
    using good ok by (simp add: exampleTown_def)
  from d ok s l1 l7 ko bad show ?thesis
    by blast
qed

text \<open>
  C2. For every player and every song, \<^verbatim>\<open>changePlayerSong\<close> calls the adapter's
  \<^verbatim>\<open>startPlayback\<close> exactly once, and makes no other call: with the town's id, the
  player, the song's title and URIs, and progress 0, whatever progress the song carried.
  Given these arguments, \<^verbatim>\<open>SpotifyClient.startUserPlayback\<close> sends the song's URIs with
  \<^verbatim>\<open>progress_ms\<close> 0.
\<close>

theorem changePlayerSong_restarts_track:
  "fst (snd (changePlayerSong adapter h t p song))
     = [StartPlayback (coveyTownID t) p
          \<lparr>displayTitle = displayTitle song, uris = uris song, progress = 0\<rparr>]
   \<and> startUserPlayback axios_put m (coveyTownID t) p
        \<lparr>displayTitle = displayTitle song, uris = uris song, progress = 0\<rparr>
       = axios_put ''https://api.spotify.com/v1/me/player/play''
           \<lparr>req_uris = uris song, req_progress_ms = 0\<rparr>
           (getTokenForTownPlayer m (coveyTownID t) p)"
  by (simp add: changePlayerSong_def startUserPlayback_def Let_def)

text \<open>
  With \<^verbatim>\<open>SpotifyClient.startUserPlayback\<close> as the adapter, the outcome of
  \<^verbatim>\<open>changePlayerSong\<close> is that of the request with \<^verbatim>\<open>progress_ms\<close> 0.
\<close>

lemma changePlayerSong_sends_progress_zero:
  assumes "adapterStartPlayback adapter = startUserPlayback axios_put m"
  shows "adapterStartPlayback adapter (coveyTownID t) p (song\<lparr>progress := 0\<rparr>)
           = axios_put ''https://api.spotify.com/v1/me/player/play''
               \<lparr>req_uris = uris song, req_progress_ms = 0\<rparr>
               (getTokenForTownPlayer m (coveyTownID t) p)"
  using assms by (simp add: startUserPlayback_def)

lemma updateSongs_calls:
  "fst (snd (updateSongs adapter t ps h))
     = concat (map (\<lambda>p. [GetCurrentTrack (coveyTownID t) p, GetPlaybackState (coveyTownID t) p]) ps)"
  by (induction ps arbitrary: h) (simp_all add: Let_def case_prod_beta)

lemma updateSongs_other: "p \<notin> set ps \<Longrightarrow> fst (updateSongs adapter t ps h) p = h p"
  by (induction ps arbitrary: h) (auto simp: Let_def case_prod_beta)

lemma updateSongs_song:
  "p \<in> set ps \<Longrightarrow>
   fst (updateSongs adapter t ps h) p
     = (h p)\<lparr>spotifySong :=
          (if adapterGetPlaybackState adapter (coveyTownID t) p = Some True
           then adapterGetCurrentTrack adapter (coveyTownID t) p else None)\<rparr>"
proof (induction ps arbitrary: h)
  case Nil
  then show ?case by simp
next
  case (Cons q ps)
  show ?case
  proof (cases "p \<in> set ps")
    case True
    then show ?thesis
      using Cons.IH [OF True] by (simp add: Let_def case_prod_beta)
  next
    case False
    with Cons.prems have "p = q" by simp
    with False show ?thesis
      using updateSongs_other [of p ps adapter t] by (simp add: Let_def case_prod_beta)
  qed
qed

text \<open>
  C3. Each call of \<^verbatim>\<open>updatePlayerSongs\<close> makes, for every entry of the town's player
  list and whatever the adapter answers for the others, one currently-playing query
  followed by one playback-state query, and no other call. Each joined player's song is
  set to the returned track when the state says playing and a track came back, and is
  cleared otherwise.
\<close>

theorem updatePlayerSongs_queries_and_songs:
  "fst (snd (updatePlayerSongs adapter h t))
     = concat (map (\<lambda>p. [GetCurrentTrack (coveyTownID t) p, GetPlaybackState (coveyTownID t) p])
         (players t))
   \<and> (\<forall>p \<in> set (players t).
        spotifySong (fst (updatePlayerSongs adapter h t) p)
          = (if adapterGetPlaybackState adapter (coveyTownID t) p = Some True
                \<and> adapterGetCurrentTrack adapter (coveyTownID t) p \<noteq> None
             then adapterGetCurrentTrack adapter (coveyTownID t) p else None))"
  by (auto simp: updatePlayerSongs_def updateSongs_calls updateSongs_song)

theorem updatePlayerSongs_queries_and_songs_witness:
  "fst (snd (updatePlayerSongs mixedAdapter exampleHeap exampleTown))
     = [GetCurrentTrack ''town1'' ''player1'', GetPlaybackState ''town1'' ''player1'',
        GetCurrentTrack ''town1'' ''player2'', GetPlaybackState ''town1'' ''player2'']
   \<and> ''player1'' \<in> set (players exampleTown)
   \<and> spotifySong (fst (updatePlayerSongs mixedAdapter exampleHeap exampleTown) ''player1'')
       = Some testSong
   \<and> ''player2'' \<in> set (players exampleTown)
   \<and> spotifySong (fst (updatePlayerSongs mixedAdapter exampleHeap exampleTown) ''player2'')
       = None"
proof -
  note t = updatePlayerSongs_queries_and_songs [of mixedAdapter exampleHeap exampleTown]
  have p1: "''player1'' \<in> set (players exampleTown)"
    by (simp add: exampleTown_def)
  have p2: "''player2'' \<in> set (players exampleTown)"
    by (simp add: exampleTown_def)
  have c: "fst (snd (updatePlayerSongs mixedAdapter exampleHeap exampleTown))
     = [GetCurrentTrack ''town1'' ''player1'', GetPlaybackState ''town1'' ''player1'',
        GetCurrentTrack ''town1'' ''player2'', GetPlaybackState ''town1'' ''player2'']"
    using t by (simp add: exampleTown_def)
  have s1: "spotifySong (fst (updatePlayerSongs mixedAdapter exampleHeap exampleTown) ''player1'')
       = Some testSong"
    using t p1 by (simp add: mixedAdapter_def)
  have s2: "spotifySong (fst (updatePlayerSongs mixedAdapter exampleHeap exampleTown) ''player2'')
       = None"
    using t p2 by (simp add: mixedAdapter_def)
  from c p1 s1 p2 s2 show ?thesis
    by blast
qed











subsection \<open>Removing a listener\<close>

lemma notifyAll_removeTownListener:
  "notifyAll (removeTownListener t l) e = filter (\<lambda>n. fst n \<noteq> l) (notifyAll t e)"
  by (simp add: notifyAll_def removeTownListener_def filter_map o_def)

lemma leaveConversationArea_removeTownListener:
  "leaveConversationArea (removeTownListener t l) p lbl
     = (removeTownListener (fst (leaveConversationArea t p lbl)) l,
        filter (\<lambda>n. fst n \<noteq> l) (snd (leaveConversationArea t p lbl)))"
  by (simp add: leaveConversationArea_def Let_def notifyAll_removeTownListener
      split: option.splits) (simp add: removeTownListener_def)

lemma enterConversationArea_removeTownListener:
  "enterConversationArea (removeTownListener t l) p lbl
     = (removeTownListener (fst (enterConversationArea t p lbl)) l,
        filter (\<lambda>n. fst n \<noteq> l) (snd (enterConversationArea t p lbl)))"
  by (simp add: enterConversationArea_def Let_def notifyAll_removeTownListener
      split: option.splits) (simp add: removeTownListener_def)

lemma leaveAll_removeTownListener:
  "leaveAll (removeTownListener t l) p lbls
     = (removeTownListener (fst (leaveAll t p lbls)) l,
        filter (\<lambda>n. fst n \<noteq> l) (snd (leaveAll t p lbls)))"
  by (induction lbls arbitrary: t)
     (simp_all add: leaveConversationArea_removeTownListener case_prod_beta Let_def)

lemma newMembership_removeTownListener:
  "newMembership contains (removeTownListener t l) newLocation = newMembership contains t newLocation"
  by (simp add: newMembership_def removeTownListener_def split: option.splits)

lemma updatePlayerLocation_removeTownListener:
  "updatePlayerLocation contains h (removeTownListener t l) p newLocation
     = (fst (updatePlayerLocation contains h t p newLocation),
        removeTownListener (fst (snd (updatePlayerLocation contains h t p newLocation))) l,
        filter (\<lambda>n. fst n \<noteq> l) (snd (snd (updatePlayerLocation contains h t p newLocation))))"
  by (simp add: updatePlayerLocation_def Let_def case_prod_beta newMembership_removeTownListener
      leaveConversationArea_removeTownListener enterConversationArea_removeTownListener
      notifyAll_removeTownListener split: option.splits)

lemma destroySession_removeTownListener:
  "destroySession (removeTownListener t l) s
     = (removeTownListener (fst (destroySession t s)) l,
        filter (\<lambda>n. fst n \<noteq> l) (snd (destroySession t s)))"
proof -
  have areas: "conversationAreas (removeTownListener t l) = conversationAreas t"
    by (simp add: removeTownListener_def)
  show ?thesis
    unfolding destroySession_def Let_def areas leaveAll_removeTownListener case_prod_beta
    by (simp add: notifyAll_def removeTownListener_def filter_map o_def)
qed

lemma addPlayer_removeTownListener:
  "addPlayer provider tok (removeTownListener t l) p
     = (case addPlayer provider tok t p of
          Inl e \<Rightarrow> Inl e
        | Inr (s, t', ns) \<Rightarrow> Inr (s, removeTownListener t' l, filter (\<lambda>n. fst n \<noteq> l) ns))"
proof -
  have tid: "coveyTownID (removeTownListener t l) = coveyTownID t"
    by (simp add: removeTownListener_def)
  show ?thesis
    unfolding addPlayer_def Let_def tid
    by (simp add: notifyAll_def removeTownListener_def filter_map o_def split: sum.splits)
qed

lemma disconnectAllPlayers_removeTownListener:
  "disconnectAllPlayers (removeTownListener t l)
     = (removeTownListener (fst (disconnectAllPlayers t)) l,
        filter (\<lambda>n. fst n \<noteq> l) (snd (disconnectAllPlayers t)))"
  by (simp add: disconnectAllPlayers_def notifyAll_def removeTownListener_def filter_map o_def)

lemma onChatMessage_removeTownListener:
  "onChatMessage (removeTownListener t l) msg
     = filter (\<lambda>n. fst n \<noteq> l) (onChatMessage t msg)"
  by (simp add: onChatMessage_def notifyAll_removeTownListener)

lemma changePlayerSong_removeTownListener:
  "changePlayerSong adapter h (removeTownListener t l) p song
     = (fst (changePlayerSong adapter h t p song),
        fst (snd (changePlayerSong adapter h t p song)),
        filter (\<lambda>n. fst n \<noteq> l) (snd (snd (changePlayerSong adapter h t p song))))"
proof -
  have tid: "coveyTownID (removeTownListener t l) = coveyTownID t"
    by (simp add: removeTownListener_def)
  show ?thesis
    unfolding changePlayerSong_def Let_def tid
    by (simp add: notifyAll_removeTownListener)
qed

lemma updateSongs_removeTownListener:
  "updateSongs adapter (removeTownListener t l) ps h
     = (fst (updateSongs adapter t ps h),
        fst (snd (updateSongs adapter t ps h)),
        filter (\<lambda>n. fst n \<noteq> l) (snd (snd (updateSongs adapter t ps h))))"
proof (induction ps arbitrary: h)
  case Nil
  show ?case by simp
next
  case (Cons q ps)
  have tid: "coveyTownID (removeTownListener t l) = coveyTownID t"
    by (simp add: removeTownListener_def)
  show ?case
    by (simp add: Let_def case_prod_beta Cons.IH tid notifyAll_removeTownListener)
qed

lemma applyOp_removeTownListener:
  "applyOp env op (h, removeTownListener t l)
     = ((fst (fst (applyOp env op (h, t))), removeTownListener (snd (fst (applyOp env op (h, t)))) l),
        filter (\<lambda>n. fst n \<noteq> l) (snd (applyOp env op (h, t))))"
proof (cases op)
  case (UpdatePlayerLocation p newLocation)
  then show ?thesis
    by (simp add: updatePlayerLocation_removeTownListener case_prod_beta)
next
  case (DestroySession s)
  then show ?thesis
    by (simp add: destroySession_removeTownListener case_prod_beta)
next
  case (AddPlayer p tok)
  then show ?thesis
    by (simp add: addPlayer_removeTownListener case_prod_beta split: sum.splits)
next
  case DisconnectAllPlayers
  then show ?thesis
    by (simp add: disconnectAllPlayers_removeTownListener case_prod_beta)
next
  case UpdatePlayerSongs
  have "players (removeTownListener t l) = players t"
    by (simp add: removeTownListener_def)
  with UpdatePlayerSongs show ?thesis
    by (simp add: updatePlayerSongs_def updateSongs_removeTownListener case_prod_beta)
next
  case (ChangePlayerSong p song)
  then show ?thesis
    by (simp add: changePlayerSong_removeTownListener case_prod_beta)
next
  case (ChatMessage msg)
  then show ?thesis
    by (simp add: onChatMessage_removeTownListener)
qed

lemma runOps_removeTownListener:
  "runOps ops (h, removeTownListener t l)
     = ((fst (fst (runOps ops (h, t))), removeTownListener (snd (fst (runOps ops (h, t)))) l),
        filter (\<lambda>n. fst n \<noteq> l) (snd (runOps ops (h, t))))"
proof (induction ops arbitrary: h t)
  case Nil
  show ?case by simp
next
  case (Cons eo ops)
  obtain env op where eo: "eo = (env, op)"
    by (cases eo)
  obtain h1 t1 n1 where step: "applyOp env op (h, t) = ((h1, t1), n1)"
    by (metis surj_pair)
  have step': "applyOp env op (h, removeTownListener t l)
      = ((h1, removeTownListener t1 l), filter (\<lambda>n. fst n \<noteq> l) n1)"
    using applyOp_removeTownListener [of env op h t l] step by simp
  show ?case
    using Cons.IH [of h1 t1] by (simp add: eo step step' case_prod_beta)
qed

lemma deliveredToAll_iff:
  "deliveredToAll ls ns \<longleftrightarrow> (\<forall>n \<in> set ns. \<forall>l \<in> set ls. (l, snd n) \<in> set ns)"
  by (simp add: deliveredToAll_def list_all_iff)

lemma deliveredToAll_Nil: "deliveredToAll ls []"
  by (simp add: deliveredToAll_iff)

lemma deliveredToAll_notifyAll: "deliveredToAll (listeners t) (notifyAll t e)"
  by (auto simp: deliveredToAll_iff notifyAll_def)

lemma deliveredToAll_append:
  "deliveredToAll ls n1 \<Longrightarrow> deliveredToAll ls n2 \<Longrightarrow> deliveredToAll ls (n1 @ n2)"
  by (auto simp: deliveredToAll_iff)

lemma leaveConversationArea_listeners:
  "listeners (fst (leaveConversationArea t p lbl)) = listeners t"
  by (simp add: leaveConversationArea_def Let_def split: option.splits)

lemma enterConversationArea_listeners:
  "listeners (fst (enterConversationArea t p lbl)) = listeners t"
  by (simp add: enterConversationArea_def Let_def split: option.splits)

lemma leaveConversationArea_delivered:
  "deliveredToAll (listeners t) (snd (leaveConversationArea t p lbl))"
  by (simp add: leaveConversationArea_def Let_def deliveredToAll_Nil deliveredToAll_notifyAll
      split: option.splits)

lemma enterConversationArea_delivered:
  "deliveredToAll (listeners t) (snd (enterConversationArea t p lbl))"
  by (simp add: enterConversationArea_def Let_def deliveredToAll_Nil deliveredToAll_notifyAll
      split: option.splits)

lemma leaveAll_listeners: "listeners (fst (leaveAll t p lbls)) = listeners t"
  by (induction lbls arbitrary: t)
     (simp_all add: case_prod_beta Let_def leaveConversationArea_listeners)

lemma leaveAll_delivered: "deliveredToAll (listeners t) (snd (leaveAll t p lbls))"
proof (induction lbls arbitrary: t)
  case Nil
  show ?case by (simp add: deliveredToAll_Nil)
next
  case (Cons lbl lbls)
  have "deliveredToAll (listeners t) (snd (leaveAll (fst (leaveConversationArea t p lbl)) p lbls))"
    using Cons.IH [of "fst (leaveConversationArea t p lbl)"]
    by (simp add: leaveConversationArea_listeners)
  then show ?case
    by (simp add: case_prod_beta Let_def deliveredToAll_append leaveConversationArea_delivered)
qed

lemma notifyAll_same_listeners: "listeners t' = listeners t \<Longrightarrow> notifyAll t' e = notifyAll t e"
  by (simp add: notifyAll_def)

lemma updatePlayerLocation_listeners:
  "listeners (fst (snd (updatePlayerLocation contains h t p newLocation))) = listeners t"
  by (simp add: updatePlayerLocation_def Let_def case_prod_beta leaveConversationArea_listeners
      enterConversationArea_listeners split: option.splits)

lemma updatePlayerLocation_delivered:
  "deliveredToAll (listeners t) (snd (snd (updatePlayerLocation contains h t p newLocation)))"
proof -
  define prior where "prior = activeConversationArea (h p)"
  define new where "new = map_option label (newMembership contains t newLocation)"
  define r1 where "r1 = (if prior \<noteq> new
             then (case prior of None \<Rightarrow> (t, []) | Some pl \<Rightarrow> leaveConversationArea t p pl)
             else (t, []))"
  define r2 where "r2 = (if prior \<noteq> new
             then (case new of None \<Rightarrow> (fst r1, []) | Some nl \<Rightarrow> enterConversationArea (fst r1) p nl)
             else (fst r1, []))"
  have l1: "listeners (fst r1) = listeners t"
    by (simp add: r1_def leaveConversationArea_listeners split: option.splits)
  have l2: "listeners (fst r2) = listeners t"
    by (simp add: r2_def l1 enterConversationArea_listeners split: option.splits)
  have d1: "deliveredToAll (listeners t) (snd r1)"
    by (simp add: r1_def deliveredToAll_Nil leaveConversationArea_delivered split: option.splits)
  have d2: "deliveredToAll (listeners (fst r1)) (snd r2)"
    by (simp add: r2_def deliveredToAll_Nil enterConversationArea_delivered split: option.splits)
  have d3: "deliveredToAll (listeners t) (notifyAll (fst r2) (OnPlayerMoved p))"
    using deliveredToAll_notifyAll [of "fst r2"] by (simp add: l2)
  have "snd (snd (updatePlayerLocation contains h t p newLocation))
      = snd r1 @ snd r2 @ notifyAll (fst r2) (OnPlayerMoved p)"
    unfolding updatePlayerLocation_def Let_def case_prod_beta r1_def r2_def prior_def new_def
    by simp
  then show ?thesis
    using d1 d2 d3 by (simp add: l1 deliveredToAll_append)
qed

lemma destroySession_listeners: "listeners (fst (destroySession t s)) = listeners t"
  by (simp add: destroySession_def Let_def case_prod_beta leaveAll_listeners)

lemma destroySession_delivered: "deliveredToAll (listeners t) (snd (destroySession t s))"
proof -
  define r1 where "r1 = leaveAll t (sessionPlayer s)
      (map label (filter (\<lambda>a. sessionPlayer s \<in> set (occupantsByID a)) (conversationAreas t)))"
  define t2 where "t2 = (fst r1)\<lparr>players := removeAll (sessionPlayer s) (players (fst r1)),
      sessions := filter (\<lambda>s'. sessionToken s' \<noteq> sessionToken s) (sessions (fst r1))\<rparr>"
  have l2: "listeners t2 = listeners t"
    by (simp add: t2_def r1_def leaveAll_listeners)
  have d1: "deliveredToAll (listeners t) (snd r1)"
    by (simp add: r1_def leaveAll_delivered)
  have d2: "deliveredToAll (listeners t) (notifyAll t2 (OnPlayerDisconnected (sessionPlayer s)))"
    using deliveredToAll_notifyAll [of t2] by (simp add: l2)
  have "snd (destroySession t s) = snd r1 @ notifyAll t2 (OnPlayerDisconnected (sessionPlayer s))"
    unfolding destroySession_def Let_def case_prod_beta r1_def t2_def
    by simp
  then show ?thesis
    using d1 d2 by (simp add: deliveredToAll_append)
qed

lemma applyOp_listeners:
  "listeners (snd (fst (applyOp env op (h, t)))) = listeners t
   \<or> listeners (snd (fst (applyOp env op (h, t)))) = []"
  by (cases op)
     (simp_all add: case_prod_beta updatePlayerLocation_listeners destroySession_listeners
        addPlayer_def Let_def disconnectAllPlayers_def split: sum.splits)

lemma updateSongs_delivered:
  "deliveredToAll (listeners t) (snd (snd (updateSongs adapter t ps h)))"
  by (induction ps arbitrary: h)
     (simp_all add: Let_def case_prod_beta deliveredToAll_Nil deliveredToAll_append
        deliveredToAll_notifyAll)

lemma applyOp_delivered: "deliveredToAll (listeners t) (snd (applyOp env op (h, t)))"
proof (cases op)
  case (UpdatePlayerLocation p newLocation)
  then show ?thesis
    by (simp add: case_prod_beta updatePlayerLocation_delivered)
next
  case (DestroySession s)
  then show ?thesis
    by (simp add: case_prod_beta destroySession_delivered)
next
  case (AddPlayer p tok)
  then show ?thesis
    by (simp add: addPlayer_def Let_def deliveredToAll_Nil notifyAll_def deliveredToAll_iff
        split: sum.splits)
next
  case DisconnectAllPlayers
  then show ?thesis
    by (simp add: disconnectAllPlayers_def deliveredToAll_notifyAll)
next
  case UpdatePlayerSongs
  then show ?thesis
    by (simp add: case_prod_beta updatePlayerSongs_def updateSongs_delivered)
next
  case (ChangePlayerSong p song)
  then show ?thesis
    by (simp add: case_prod_beta changePlayerSong_def Let_def deliveredToAll_Nil
        deliveredToAll_notifyAll)
next
  case (ChatMessage msg)
  then show ?thesis
    by (simp add: onChatMessage_def deliveredToAll_notifyAll)
qed

lemma createTown_no_listeners:
  "createTown newID newPassword ts name isListed = Some (t, ts') \<Longrightarrow> listeners t = []"
  by (auto simp: createTown_def Let_def split: if_splits)

lemma addTownListener_distinct: "distinct (listeners t) \<Longrightarrow> distinct (listeners (addTownListener t l))"
  by (simp add: addTownListener_def)

lemma removeTownListener_distinct:
  "distinct (listeners t) \<Longrightarrow> distinct (listeners (removeTownListener t l))"
  by (simp add: removeTownListener_def)

lemma applyOp_distinct:
  "distinct (listeners t) \<Longrightarrow> distinct (listeners (snd (fst (applyOp env op (h, t)))))"
  using applyOp_listeners [of env op h t] by auto

text \<open>
  C7. For every listener \<open>l\<close> and every sequence of the controller operations
  \<^verbatim>\<open>updatePlayerLocation\<close>, \<^verbatim>\<open>destroySession\<close>, \<^verbatim>\<open>addPlayer\<close>, \<^verbatim>\<open>disconnectAllPlayers\<close>,
  \<^verbatim>\<open>updatePlayerSongs\<close>, \<^verbatim>\<open>changePlayerSong\<close> and \<^verbatim>\<open>onChatMessage\<close> that follows
  \<^verbatim>\<open>removeTownListener(l)\<close>: no notification is delivered to \<open>l\<close>; every other listener
  receives exactly the notifications it would have received had \<open>l\<close> stayed, and the
  state evolves in the same way; and every event an operation emits is delivered to
  every listener subscribed when the operation starts.
\<close>

theorem removed_listener_receives_nothing:
  "l \<notin> fst ` set (snd (runOps ops (h, removeTownListener t l)))
   \<and> (\<forall>l'. l' \<noteq> l \<longrightarrow>
        filter (\<lambda>n. fst n = l') (snd (runOps ops (h, removeTownListener t l)))
          = filter (\<lambda>n. fst n = l') (snd (runOps ops (h, t))))
   \<and> fst (runOps ops (h, removeTownListener t l))
       = (fst (fst (runOps ops (h, t))), removeTownListener (snd (fst (runOps ops (h, t)))) l)
   \<and> deliveredToAll (listeners t) (snd (applyOp env op (h, t)))"
proof -
  have eq: "snd (runOps ops (h, removeTownListener t l))
      = filter (\<lambda>n. fst n \<noteq> l) (snd (runOps ops (h, t)))"
    by (simp add: runOps_removeTownListener)
  have a: "l \<notin> fst ` set (snd (runOps ops (h, removeTownListener t l)))"
    unfolding eq by auto
  have b: "filter (\<lambda>n. fst n = l') (snd (runOps ops (h, removeTownListener t l)))
          = filter (\<lambda>n. fst n = l') (snd (runOps ops (h, t)))" if "l' \<noteq> l" for l'
  proof -
    have "(\<lambda>n::notification. fst n \<noteq> l \<and> fst n = l') = (\<lambda>n. fst n = l')"
      using that by auto
    then show ?thesis
      unfolding eq by simp
  qed
  have c: "fst (runOps ops (h, removeTownListener t l))
       = (fst (fst (runOps ops (h, t))), removeTownListener (snd (fst (runOps ops (h, t)))) l)"
    by (simp add: runOps_removeTownListener)
  from a b c applyOp_delivered show ?thesis
    by blast
qed

theorem removed_listener_receives_nothing_witness:
  "snd (runOps [(exampleCollaborators, ChangePlayerSong ''player1'' testSong),
                (exampleCollaborators, ChatMessage ''hello'')]
          (exampleHeap, removeTownListener exampleTown 1))
     = [(0, OnPlayerSongUpdated ''player1''), (2, OnPlayerSongUpdated ''player1''),
        (0, OnChatMessage ''hello''), (2, OnChatMessage ''hello'')]
   \<and> 1 \<notin> fst ` set (snd (runOps [(exampleCollaborators, ChangePlayerSong ''player1'' testSong),
                (exampleCollaborators, ChatMessage ''hello'')]
          (exampleHeap, removeTownListener exampleTown 1)))
   \<and> filter (\<lambda>n. fst n = 2)
        (snd (runOps [(exampleCollaborators, ChangePlayerSong ''player1'' testSong),
                (exampleCollaborators, ChatMessage ''hello'')]
          (exampleHeap, removeTownListener exampleTown 1)))
       = filter (\<lambda>n. fst n = 2)
           (snd (runOps [(exampleCollaborators, ChangePlayerSong ''player1'' testSong),
                (exampleCollaborators, ChatMessage ''hello'')] (exampleHeap, exampleTown)))
   \<and> deliveredToAll (listeners exampleTown)
        (snd (applyOp exampleCollaborators (ChatMessage ''hello'') (exampleHeap, exampleTown)))"
proof -
  note t = removed_listener_receives_nothing
    [of 1 "[(exampleCollaborators, ChangePlayerSong ''player1'' testSong),
            (exampleCollaborators, ChatMessage ''hello'')]" exampleHeap exampleTown
        exampleCollaborators "ChatMessage ''hello''"]
  have ne: "(2::nat) \<noteq> 1"
    by simp
  have run: "snd (runOps [(exampleCollaborators, ChangePlayerSong ''player1'' testSong),
                (exampleCollaborators, ChatMessage ''hello'')]
          (exampleHeap, removeTownListener exampleTown 1))
     = [(0, OnPlayerSongUpdated ''player1''), (2, OnPlayerSongUpdated ''player1''),
        (0, OnChatMessage ''hello''), (2, OnChatMessage ''hello'')]"
    by (simp add: exampleCollaborators_def playingAdapter_def changePlayerSong_def Let_def
        onChatMessage_def notifyAll_def removeTownListener_def exampleTown_def)
  from t ne run show ?thesis
    by blast
qed

section \<open>Properties of the request handlers\<close>

text \<open>
  C4. A delete request with a password that does not match must fail, report the
  mismatch and leave all of the town's state as it was, the town's entry in the music
  client's map included. The handler does fail and report, and the registry is left
  alone; but it calls \<^verbatim>\<open>removeTownFromClient\<close> all the same, so the town's entry, and
  with it every linked player's token, is gone from the client's map.
\<close>

theorem townDeleteHandler_wrong_password_unlinks_town:
  "townUpdatePassword exampleTown \<noteq> ''wrong''
   \<and> getTokenForTownPlayer (clientMaps exampleServer) ''town1'' ''player1''
       = Some (JStr ''test_token_1'')
   \<and> isOK (fst (townDeleteHandler exampleServer
        \<lparr>deleteCoveyTownID = ''town1'', deleteCoveyTownPassword = ''wrong''\<rparr>)) = False
   \<and> message (fst (townDeleteHandler exampleServer
        \<lparr>deleteCoveyTownID = ''town1'', deleteCoveyTownPassword = ''wrong''\<rparr>))
       = Some ''Invalid password. Please double check your town update password.''
   \<and> towns (fst (snd (townDeleteHandler exampleServer
        \<lparr>deleteCoveyTownID = ''town1'', deleteCoveyTownPassword = ''wrong''\<rparr>)))
       = towns exampleServer
   \<and> clientMaps (fst (snd (townDeleteHandler exampleServer
        \<lparr>deleteCoveyTownID = ''town1'', deleteCoveyTownPassword = ''wrong''\<rparr>))) ''town1''
       = None
   \<and> getTokenForTownPlayer (clientMaps (fst (snd (townDeleteHandler exampleServer
        \<lparr>deleteCoveyTownID = ''town1'', deleteCoveyTownPassword = ''wrong''\<rparr>))))
        ''town1'' ''player1'' = None"
  by (simp add: townDeleteHandler_def deleteTown_def getControllerForTown_def exampleServer_def
      exampleTown_def exampleMaps_def removeTownFromClient_def getTokenForTownPlayer_def)

text \<open>
  In general: with a wrong password \<^verbatim>\<open>deleteTown\<close> changes nothing, and the handler
  changes the client's map only.
\<close>

lemma deleteTown_wrong_password:
  "getControllerForTown ts townID = Some t \<Longrightarrow> townUpdatePassword t \<noteq> password \<Longrightarrow>
   deleteTown ts townID password = (False, ts, [])"
  by (simp add: deleteTown_def)

lemma townDeleteHandler_wrong_password:
  assumes "getControllerForTown (towns st) (deleteCoveyTownID requestData) = Some t"
    and "townUpdatePassword t \<noteq> deleteCoveyTownPassword requestData"
  shows "townDeleteHandler st requestData
     = (\<lparr>isOK = False,
         message = Some ''Invalid password. Please double check your town update password.'',
         response = Some ()\<rparr>,
        st\<lparr>clientMaps := removeTownFromClient (clientMaps st) (deleteCoveyTownID requestData)\<rparr>,
        [])"
  using assms by (simp add: townDeleteHandler_def deleteTown_def)

text \<open>
  C5, as stated, fails: \<^verbatim>\<open>townJoinHandler\<close> returns no envelope when credential linking
  fails, when the video token provider fails, or when the video token it is given is
  empty; the error leaves the handler.
\<close>

theorem townJoinHandler_propagates_errors:
  "fst (townJoinHandler videoOK parseExamples ''player3'' exampleLocation ''session3''
          exampleServer
          \<lparr>joinUserName = ''new player'', joinCoveyTownID = ''town1'',
           spotifySessionToken = Some ''not json''\<rparr>)
     = Inl (Error ''Error parsing token \"not json\"'')
   \<and> fst (townJoinHandler videoDown parseExamples ''player3'' exampleLocation ''session3''
          exampleServer
          \<lparr>joinUserName = ''new player'', joinCoveyTownID = ''town1'',
           spotifySessionToken = None\<rparr>)
     = Inl VideoTokenError
   \<and> fst (townJoinHandler videoEmpty parseExamples ''player3'' exampleLocation ''session3''
          exampleServer
          \<lparr>joinUserName = ''new player'', joinCoveyTownID = ''town1'',
           spotifySessionToken = None\<rparr>)
     = Inl AssertionError"
  by (simp add: townJoinHandler_def getControllerForTown_def exampleServer_def exampleTown_def
      addPlayer_def videoOK_def videoDown_def videoEmpty_def Let_def addTownPlayerToClient_def
      parseExamples_def parseErrorMessage_def)

lemma townListHandler_envelope:
  "townListHandler st = \<lparr>isOK = True, message = None, response = Some (getTowns (towns st))\<rparr>"
  by (simp add: townListHandler_def)

lemma townCreateHandler_envelope:
  "fst (townCreateHandler newID newPassword st requestData)
     = Inr (if createFriendlyName requestData = []
            then \<lparr>isOK = False, message = Some ''FriendlyName must be specified'',
                  response = None\<rparr>
            else \<lparr>isOK = True, message = None,
                  response = Some \<lparr>createdCoveyTownID = newID,
                                   createdCoveyTownPassword = newPassword\<rparr>\<rparr>)"
  by (simp add: townCreateHandler_def createTown_def Let_def)

lemma townDeleteHandler_envelope:
  "response (fst (townDeleteHandler st requestData)) = Some ()
   \<and> message (fst (townDeleteHandler st requestData))
       = (if isOK (fst (townDeleteHandler st requestData)) then None
          else Some ''Invalid password. Please double check your town update password.'')"
  by (simp add: townDeleteHandler_def case_prod_beta)

lemma townUpdateHandler_envelope:
  "response (fst (townUpdateHandler st requestData)) = Some ()
   \<and> message (fst (townUpdateHandler st requestData))
       = (if isOK (fst (townUpdateHandler st requestData)) then None
          else Some ''Invalid password or update values specified. Please double check your town update password.'')"
  by (simp add: townUpdateHandler_def case_prod_beta)

lemma townJoinHandler_no_town:
  assumes "getControllerForTown (towns st) (joinCoveyTownID requestData) = None"
  shows "fst (townJoinHandler provider parse newPlayerID startLocation newSessionToken st requestData)
     = Inr \<lparr>isOK = False, message = Some ''Error: No such town'', response = None\<rparr>"
  using assms by (simp add: townJoinHandler_def)

lemma townJoinHandler_video_failure:
  assumes "getControllerForTown (towns st) (joinCoveyTownID requestData) = Some c"
    and "provider (coveyTownID c) newPlayerID = Inl e"
  shows "fst (townJoinHandler provider parse newPlayerID startLocation newSessionToken st requestData)
     = Inl e"
  using assms by (simp add: townJoinHandler_def addPlayer_def Let_def)

lemma townJoinHandler_linking_failure:
  assumes "getControllerForTown (towns st) (joinCoveyTownID requestData) = Some c"
    and "provider (coveyTownID c) newPlayerID = Inr v"
    and "spotifySessionToken requestData = Some token"
    and "token \<noteq> []"
    and "parse token = None \<or> parse token = Some JNull"
  shows "fst (townJoinHandler provider parse newPlayerID startLocation newSessionToken st requestData)
     = Inl (Error (parseErrorMessage token))"
  using assms by (auto simp: townJoinHandler_def addPlayer_def Let_def addTownPlayerToClient_def)

lemma addTownPlayerToClient_ok:
  assumes "parse token = Some j" and "j \<noteq> JNull"
  shows "fst (addTownPlayerToClient parse m townID p token) = Inr ()"
proof -
  obtain a where a: "getProp (Some j) ''access_token'' = Inr a"
    using getProp_no_throw [OF assms(2)] by blast
  obtain b where b: "getProp (Some j) ''expiry'' = Inr b"
    using getProp_no_throw [OF assms(2)] by blast
  show ?thesis
    using assms(1) a b by (simp add: addTownPlayerToClient_def)
qed

lemma townJoinHandler_assertion_failure:
  assumes "getControllerForTown (towns st) (joinCoveyTownID requestData) = Some c"
    and "provider (coveyTownID c) newPlayerID = Inr []"
    and "spotifySessionToken requestData = None \<or> spotifySessionToken requestData = Some []
         \<or> (\<exists>token j. spotifySessionToken requestData = Some token \<and> parse token = Some j
               \<and> j \<noteq> JNull)"
  shows "fst (townJoinHandler provider parse newPlayerID startLocation newSessionToken st
                requestData) = Inl AssertionError"
proof -
  consider (none) "spotifySessionToken requestData = None"
    | (empty) "spotifySessionToken requestData = Some []"
    | (linked) token j where "spotifySessionToken requestData = Some token" "token \<noteq> []"
        "parse token = Some j" "j \<noteq> JNull"
    using assms(3) by (cases "spotifySessionToken requestData") auto
  then show ?thesis
  proof cases
    case none
    then show ?thesis
      using assms(1) assms(2)
      by (simp add: townJoinHandler_def addPlayer_def Let_def)
  next
    case empty
    then show ?thesis
      using assms(1) assms(2)
      by (simp add: townJoinHandler_def addPlayer_def Let_def)
  next
    case linked
    have ok: "fst (addTownPlayerToClient parse m townID p token) = Inr ()" for m townID p
      using linked(3) linked(4) by (rule addTownPlayerToClient_ok)
    show ?thesis
      using assms(1) assms(2) linked(1) linked(2)
      by (simp add: townJoinHandler_def addPlayer_def Let_def ok)
  qed
qed

lemma townJoinHandler_success:
  assumes "getControllerForTown (towns st) (joinCoveyTownID requestData) = Some c"
    and "provider (coveyTownID c) newPlayerID = Inr v"
    and "v \<noteq> []"
    and "spotifySessionToken requestData = None \<or> spotifySessionToken requestData = Some []
         \<or> (\<exists>token j. spotifySessionToken requestData = Some token \<and> parse token = Some j
               \<and> j \<noteq> JNull)"
  shows "\<exists>r. fst (townJoinHandler provider parse newPlayerID startLocation newSessionToken st
                   requestData)
           = Inr \<lparr>isOK = True, message = None, response = Some r\<rparr>
         \<and> coveyUserID r = newPlayerID \<and> coveySessionToken r = newSessionToken
         \<and> providerVideoToken r = v \<and> currentPlayers r = players c @ [newPlayerID]"
proof -
  consider (none) "spotifySessionToken requestData = None"
    | (empty) "spotifySessionToken requestData = Some []"
    | (linked) token j where "spotifySessionToken requestData = Some token" "token \<noteq> []"
        "parse token = Some j" "j \<noteq> JNull"
    using assms(4) by (cases "spotifySessionToken requestData") auto
  then show ?thesis
  proof cases
    case none
    then show ?thesis
      using assms(1) assms(2) assms(3)
      by (simp add: townJoinHandler_def addPlayer_def Let_def)
  next
    case empty
    then show ?thesis
      using assms(1) assms(2) assms(3)
      by (simp add: townJoinHandler_def addPlayer_def Let_def)
  next
    case linked
    have ok: "fst (addTownPlayerToClient parse m townID p token) = Inr ()" for m townID p
      using linked(3) linked(4) by (rule addTownPlayerToClient_ok)
    show ?thesis
      using assms(1) assms(2) assms(3) linked(1) linked(2)
      by (simp add: townJoinHandler_def addPlayer_def Let_def ok)
  qed
qed

text \<open>
  C5, amended. The list, create, delete and update handlers always return an envelope,
  a success flag together with either a result payload or a failure message, and never
  an error: the list handler succeeds with the list of towns; the create handler
  returns the new town's id and password on success, and on an empty name a message and
  no payload; the delete and update handlers return their empty payload in every case,
  and a message exactly when the flag is false. \<^verbatim>\<open>townJoinHandler\<close> returns a failure
  envelope with a message when the town does not exist, and a success envelope with the
  join response when the video token provider answers with a non-empty token and the
  credential is absent, empty, or parses to a value other than \<^verbatim>\<open>null\<close>. It has no
  \<^verbatim>\<open>try\<close> block: when the video token provider fails, when the credential is a non-empty
  string that does not parse or parses to \<^verbatim>\<open>null\<close>, or when the video token it is given
  is empty, so that the assertion on it fails, the error is propagated to the caller.
\<close>

theorem request_handlers_envelopes:
  "townListHandler st = \<lparr>isOK = True, message = None, response = Some (getTowns (towns st))\<rparr>
   \<and> fst (townCreateHandler newID newPassword st createRequest)
       = Inr (if createFriendlyName createRequest = []
              then \<lparr>isOK = False, message = Some ''FriendlyName must be specified'',
                    response = None\<rparr>
              else \<lparr>isOK = True, message = None,
                    response = Some \<lparr>createdCoveyTownID = newID,
                                     createdCoveyTownPassword = newPassword\<rparr>\<rparr>)
   \<and> response (fst (townDeleteHandler st deleteRequest)) = Some ()
   \<and> message (fst (townDeleteHandler st deleteRequest))
       = (if isOK (fst (townDeleteHandler st deleteRequest)) then None
          else Some ''Invalid password. Please double check your town update password.'')
   \<and> response (fst (townUpdateHandler st updateRequest)) = Some ()
   \<and> message (fst (townUpdateHandler st updateRequest))
       = (if isOK (fst (townUpdateHandler st updateRequest)) then None
          else Some ''Invalid password or update values specified. Please double check your town update password.'')
   \<and> (getControllerForTown (towns st) (joinCoveyTownID joinRequest) = None \<longrightarrow>
        fst (townJoinHandler provider parse newPlayerID startLocation newSessionToken st
               joinRequest)
          = Inr \<lparr>isOK = False, message = Some ''Error: No such town'', response = None\<rparr>)
   \<and> (\<forall>c v. getControllerForTown (towns st) (joinCoveyTownID joinRequest) = Some c
           \<and> provider (coveyTownID c) newPlayerID = Inr v \<and> v \<noteq> []
           \<and> (spotifySessionToken joinRequest = None
               \<or> spotifySessionToken joinRequest = Some []
               \<or> (\<exists>token j. spotifySessionToken joinRequest = Some token
                     \<and> parse token = Some j \<and> j \<noteq> JNull)) \<longrightarrow>
        (\<exists>r. fst (townJoinHandler provider parse newPlayerID startLocation newSessionToken st
               joinRequest)
               = Inr \<lparr>isOK = True, message = None, response = Some r\<rparr>
             \<and> coveyUserID r = newPlayerID \<and> coveySessionToken r = newSessionToken
             \<and> providerVideoToken r = v \<and> currentPlayers r = players c @ [newPlayerID]))
   \<and> (\<forall>c e. getControllerForTown (towns st) (joinCoveyTownID joinRequest) = Some c
           \<and> provider (coveyTownID c) newPlayerID = Inl e \<longrightarrow>
        fst (townJoinHandler provider parse newPlayerID startLocation newSessionToken st
               joinRequest) = Inl e)
   \<and> (\<forall>c v token. getControllerForTown (towns st) (joinCoveyTownID joinRequest) = Some c
           \<and> provider (coveyTownID c) newPlayerID = Inr v
           \<and> spotifySessionToken joinRequest = Some token \<and> token \<noteq> []
           \<and> (parse token = None \<or> parse token = Some JNull) \<longrightarrow>
        fst (townJoinHandler provider parse newPlayerID startLocation newSessionToken st
               joinRequest) = Inl (Error (parseErrorMessage token)))
   \<and> (\<forall>c. getControllerForTown (towns st) (joinCoveyTownID joinRequest) = Some c
           \<and> provider (coveyTownID c) newPlayerID = Inr []
           \<and> (spotifySessionToken joinRequest = None
               \<or> spotifySessionToken joinRequest = Some []
               \<or> (\<exists>token j. spotifySessionToken joinRequest = Some token
                     \<and> parse token = Some j \<and> j \<noteq> JNull)) \<longrightarrow>
        fst (townJoinHandler provider parse newPlayerID startLocation newSessionToken st
               joinRequest) = Inl AssertionError)"
proof -
  have join_ok: "\<forall>c v. getControllerForTown (towns st) (joinCoveyTownID joinRequest) = Some c
           \<and> provider (coveyTownID c) newPlayerID = Inr v \<and> v \<noteq> []
           \<and> (spotifySessionToken joinRequest = None
               \<or> spotifySessionToken joinRequest = Some []
               \<or> (\<exists>token j. spotifySessionToken joinRequest = Some token
                     \<and> parse token = Some j \<and> j \<noteq> JNull)) \<longrightarrow>
        (\<exists>r. fst (townJoinHandler provider parse newPlayerID startLocation newSessionToken st
               joinRequest)
               = Inr \<lparr>isOK = True, message = None, response = Some r\<rparr>
             \<and> coveyUserID r = newPlayerID \<and> coveySessionToken r = newSessionToken
             \<and> providerVideoToken r = v \<and> currentPlayers r = players c @ [newPlayerID])"
    using townJoinHandler_success [of st joinRequest _ provider newPlayerID _ parse
        startLocation newSessionToken]
    by blast
  have join_video: "\<forall>c e. getControllerForTown (towns st) (joinCoveyTownID joinRequest) = Some c
           \<and> provider (coveyTownID c) newPlayerID = Inl e \<longrightarrow>
        fst (townJoinHandler provider parse newPlayerID startLocation newSessionToken st
               joinRequest) = Inl e"
    using townJoinHandler_video_failure by blast
  have join_link: "\<forall>c v token. getControllerForTown (towns st) (joinCoveyTownID joinRequest) = Some c
           \<and> provider (coveyTownID c) newPlayerID = Inr v
           \<and> spotifySessionToken joinRequest = Some token \<and> token \<noteq> []
           \<and> (parse token = None \<or> parse token = Some JNull) \<longrightarrow>
        fst (townJoinHandler provider parse newPlayerID startLocation newSessionToken st
               joinRequest) = Inl (Error (parseErrorMessage token))"
    using townJoinHandler_linking_failure by blast
  have join_assert: "\<forall>c. getControllerForTown (towns st) (joinCoveyTownID joinRequest) = Some c
           \<and> provider (coveyTownID c) newPlayerID = Inr []
           \<and> (spotifySessionToken joinRequest = None
               \<or> spotifySessionToken joinRequest = Some []
               \<or> (\<exists>token j. spotifySessionToken joinRequest = Some token
                     \<and> parse token = Some j \<and> j \<noteq> JNull)) \<longrightarrow>
        fst (townJoinHandler provider parse newPlayerID startLocation newSessionToken st
               joinRequest) = Inl AssertionError"
    using townJoinHandler_assertion_failure [of st joinRequest _ provider newPlayerID parse
        startLocation newSessionToken]
    by blast
  show ?thesis
    using townListHandler_envelope [of st]
      townCreateHandler_envelope [of newID newPassword st createRequest]
      townDeleteHandler_envelope [of st deleteRequest]
      townUpdateHandler_envelope [of st updateRequest]
      townJoinHandler_no_town [of st joinRequest provider parse newPlayerID startLocation
        newSessionToken]
      join_ok join_video join_link join_assert
    by blast
qed

theorem request_handlers_envelopes_witness:
  "getControllerForTown (towns exampleServer) ''nowhere'' = None
   \<and> fst (townJoinHandler videoOK parseExamples ''player3'' exampleLocation ''session3''
          exampleServer
          \<lparr>joinUserName = ''new player'', joinCoveyTownID = ''nowhere'',
           spotifySessionToken = None\<rparr>)
       = Inr \<lparr>isOK = False, message = Some ''Error: No such town'', response = None\<rparr>
   \<and> getControllerForTown (towns exampleServer) ''town1'' = Some exampleTown
   \<and> (\<exists>r. fst (townJoinHandler videoOK parseExamples ''player3'' exampleLocation ''session3''
          exampleServer
          \<lparr>joinUserName = ''new player'', joinCoveyTownID = ''town1'',
           spotifySessionToken =
             Some ''{\"access_token\":\"test_token_2\", \"expiry\":3600}''\<rparr>)
            = Inr \<lparr>isOK = True, message = None, response = Some r\<rparr>
          \<and> coveyUserID r = ''player3'' \<and> coveySessionToken r = ''session3''
          \<and> providerVideoToken r = ''video-token''
          \<and> currentPlayers r = players exampleTown @ [''player3''])
   \<and> fst (townJoinHandler videoDown parseExamples ''player3'' exampleLocation ''session3''
          exampleServer
          \<lparr>joinUserName = ''new player'', joinCoveyTownID = ''town1'',
           spotifySessionToken = None\<rparr>)
       = Inl VideoTokenError
   \<and> fst (townJoinHandler videoOK parseExamples ''player3'' exampleLocation ''session3''
          exampleServer
          \<lparr>joinUserName = ''new player'', joinCoveyTownID = ''town1'',
           spotifySessionToken = Some ''null''\<rparr>)
       = Inl (Error ''Error parsing token \"null\"'')
   \<and> fst (townJoinHandler videoEmpty parseExamples ''player3'' exampleLocation ''session3''
          exampleServer
          \<lparr>joinUserName = ''new player'', joinCoveyTownID = ''town1'',
           spotifySessionToken = None\<rparr>)
       = Inl AssertionError
   \<and> fst (townCreateHandler ''town2'' ''password2'' exampleServer
          \<lparr>createFriendlyName = [], createIsPubliclyListed = True\<rparr>)
       = Inr \<lparr>isOK = False, message = Some ''FriendlyName must be specified'',
              response = None\<rparr>
   \<and> fst (townCreateHandler ''town2'' ''password2'' exampleServer
          \<lparr>createFriendlyName = ''Second town'', createIsPubliclyListed = True\<rparr>)
       = Inr \<lparr>isOK = True, message = None,
              response = Some \<lparr>createdCoveyTownID = ''town2'',
                               createdCoveyTownPassword = ''password2''\<rparr>\<rparr>"
proof -
  have nowhere: "getControllerForTown (towns exampleServer) ''nowhere'' = None"
    by (simp add: getControllerForTown_def exampleServer_def exampleTown_def)
  have town1: "getControllerForTown (towns exampleServer) ''town1'' = Some exampleTown"
    by (simp add: getControllerForTown_def exampleServer_def exampleTown_def)
  have tid: "coveyTownID exampleTown = ''town1''"
    by (simp add: exampleTown_def)
  have p2: "parseExamples ''{\"access_token\":\"test_token_2\", \"expiry\":3600}''
      = Some (JObj [(''access_token'', JStr ''test_token_2''), (''expiry'', JNum 3600)])"
    by (simp add: parseExamples_def)
  have pn: "parseExamples ''null'' = Some JNull"
    by (simp add: parseExamples_def)
  note t1 = request_handlers_envelopes [where st = exampleServer and provider = videoOK
      and parse = parseExamples and newPlayerID = "''player3''"
      and startLocation = exampleLocation and newSessionToken = "''session3''"
      and joinRequest = "\<lparr>joinUserName = ''new player'', joinCoveyTownID = ''nowhere'',
           spotifySessionToken = None\<rparr>"]
  have c1: "fst (townJoinHandler videoOK parseExamples ''player3'' exampleLocation ''session3''
          exampleServer
          \<lparr>joinUserName = ''new player'', joinCoveyTownID = ''nowhere'',
           spotifySessionToken = None\<rparr>)
       = Inr \<lparr>isOK = False, message = Some ''Error: No such town'', response = None\<rparr>"
    using t1 nowhere by simp
  note t2 = request_handlers_envelopes [where st = exampleServer and provider = videoOK
      and parse = parseExamples and newPlayerID = "''player3''"
      and startLocation = exampleLocation and newSessionToken = "''session3''"
      and joinRequest = "\<lparr>joinUserName = ''new player'', joinCoveyTownID = ''town1'',
           spotifySessionToken =
             Some ''{\"access_token\":\"test_token_2\", \"expiry\":3600}''\<rparr>"]
  have c2: "\<exists>r. fst (townJoinHandler videoOK parseExamples ''player3'' exampleLocation ''session3''
          exampleServer
          \<lparr>joinUserName = ''new player'', joinCoveyTownID = ''town1'',
           spotifySessionToken =
             Some ''{\"access_token\":\"test_token_2\", \"expiry\":3600}''\<rparr>)
            = Inr \<lparr>isOK = True, message = None, response = Some r\<rparr>
          \<and> coveyUserID r = ''player3'' \<and> coveySessionToken r = ''session3''
          \<and> providerVideoToken r = ''video-token''
          \<and> currentPlayers r = players exampleTown @ [''player3'']"
    using t2 town1 tid p2 by (simp add: videoOK_def)
  note t3 = request_handlers_envelopes [where st = exampleServer and provider = videoDown
      and parse = parseExamples and newPlayerID = "''player3''"
      and startLocation = exampleLocation and newSessionToken = "''session3''"
      and joinRequest = "\<lparr>joinUserName = ''new player'', joinCoveyTownID = ''town1'',
           spotifySessionToken = None\<rparr>"]
  have c3: "fst (townJoinHandler videoDown parseExamples ''player3'' exampleLocation ''session3''
          exampleServer
          \<lparr>joinUserName = ''new player'', joinCoveyTownID = ''town1'',
           spotifySessionToken = None\<rparr>)
       = Inl VideoTokenError"
    using t3 town1 tid by (simp add: videoDown_def)
  note t4 = request_handlers_envelopes [where st = exampleServer and provider = videoOK
      and parse = parseExamples and newPlayerID = "''player3''"
      and startLocation = exampleLocation and newSessionToken = "''session3''"
      and joinRequest = "\<lparr>joinUserName = ''new player'', joinCoveyTownID = ''town1'',
           spotifySessionToken = Some ''null''\<rparr>"]
  have c4: "fst (townJoinHandler videoOK parseExamples ''player3'' exampleLocation ''session3''
          exampleServer
          \<lparr>joinUserName = ''new player'', joinCoveyTownID = ''town1'',
           spotifySessionToken = Some ''null''\<rparr>)
       = Inl (Error ''Error parsing token \"null\"'')"
    using t4 town1 tid pn by (simp add: videoOK_def parseErrorMessage_def)
  note t5 = request_handlers_envelopes [where st = exampleServer and provider = videoEmpty
      and parse = parseExamples and newPlayerID = "''player3''"
      and startLocation = exampleLocation and newSessionToken = "''session3''"
      and joinRequest = "\<lparr>joinUserName = ''new player'', joinCoveyTownID = ''town1'',
           spotifySessionToken = None\<rparr>"]
  have c5: "fst (townJoinHandler videoEmpty parseExamples ''player3'' exampleLocation ''session3''
          exampleServer
          \<lparr>joinUserName = ''new player'', joinCoveyTownID = ''town1'',
           spotifySessionToken = None\<rparr>)
       = Inl AssertionError"
    using t5 town1 tid by (simp add: videoEmpty_def)
  have c6: "fst (townCreateHandler ''town2'' ''password2'' exampleServer
          \<lparr>createFriendlyName = [], createIsPubliclyListed = True\<rparr>)
       = Inr \<lparr>isOK = False, message = Some ''FriendlyName must be specified'',
              response = None\<rparr>"
    using request_handlers_envelopes [where st = exampleServer and newID = "''town2''"
      and newPassword = "''password2''"
      and createRequest = "\<lparr>createFriendlyName = [], createIsPubliclyListed = True\<rparr>"]
    by simp
  have c7: "fst (townCreateHandler ''town2'' ''password2'' exampleServer
          \<lparr>createFriendlyName = ''Second town'', createIsPubliclyListed = True\<rparr>)
       = Inr \<lparr>isOK = True, message = None,
              response = Some \<lparr>createdCoveyTownID = ''town2'',
                               createdCoveyTownPassword = ''password2''\<rparr>\<rparr>"
    using request_handlers_envelopes [where st = exampleServer and newID = "''town2''"
      and newPassword = "''password2''"
      and createRequest = "\<lparr>createFriendlyName = ''Second town'',
        createIsPubliclyListed = True\<rparr>"]
    by simp
  from nowhere c1 town1 c2 c3 c4 c5 c6 c7 show ?thesis
    by blast
qed

end
